theory Spec2Isabelle
  imports Complex_Main "HOL-Library.AList" "HOL-Library.Char_ord" "HOL-Library.List_Lexorder"
    "HOL-Library.Product_Lexorder" "HOL-Library.Multiset"
begin

section \<open>Python values\<close>

text \<open>
  Values that cross the JSON-RPC wire, the HTTP boundary and the cache are JSON values.
  A Python \<open>dict\<close> with string keys is an association list in insertion order; storing
  under a key keeps the position of an existing key and appends a new one
  (\<open>AList.update\<close>).
\<close>

datatype json =
    JNull
  | JBool bool
  | JInt int
  | JFloat real
  | JStr string
  | JList "json list"
  | JDict "(string \<times> json) list"

type_synonym pydict = "(string \<times> json) list"

text \<open>
  A Python \<open>str\<close> whose characters are looked at (text that is stripped, lower-cased,
  sorted or encoded) is the list of its Unicode code points; \<open>ustr_of\<close> writes an ASCII
  literal as such a list. Encoded text is the list of its bytes.
\<close>

type_synonym ustr = "nat list"

type_synonym bytes = "nat list"

definition ustr_of :: "string \<Rightarrow> ustr" where
  "ustr_of s = map of_char s"

text \<open>Exceptions, all of them subclasses of \<open>Exception\<close>; the string is \<open>str(e)\<close>.\<close>

datatype exn =
    ValueError string
  | TypeError string
  | AttributeError string
  | JSONDecodeError string
  | OtherError string

fun str_exn :: "exn \<Rightarrow> string" where
  "str_exn (ValueError m) = m"
| "str_exn (TypeError m) = m"
| "str_exn (AttributeError m) = m"
| "str_exn (JSONDecodeError m) = m"
| "str_exn (OtherError m) = m"

text \<open>\<open>d.get(k, default)\<close> and \<open>d[k] = v\<close>.\<close>

definition dict_get :: "pydict \<Rightarrow> string \<Rightarrow> json \<Rightarrow> json" where
  "dict_get d k dflt = (case map_of d k of Some v \<Rightarrow> v | None \<Rightarrow> dflt)"

definition dict_set :: "pydict \<Rightarrow> string \<Rightarrow> json \<Rightarrow> pydict" where
  "dict_set d k v = AList.update k v d"

text \<open>Python truthiness, as used by \<open>x or default\<close> and \<open>if x:\<close>.\<close>

fun truthy :: "json \<Rightarrow> bool" where
  "truthy JNull = False"
| "truthy (JBool b) = b"
| "truthy (JInt n) = (n \<noteq> 0)"
| "truthy (JFloat r) = (r \<noteq> 0)"
| "truthy (JStr s) = (s \<noteq> [])"
| "truthy (JList xs) = (xs \<noteq> [])"
| "truthy (JDict d) = (d \<noteq> [])"

text \<open>
  What the process does to the outside world, in the order it does it: HTTP GET requests
  (URL and the query parameters or headers sent) and lines printed to standard error.
\<close>

datatype event =
    HttpGet json pydict
  | Stderr string

section \<open>engine\_registry.py\<close>

record http_response =
  resp_text :: string
  status_code :: int
  url :: string

text \<open>
  A loaded engine module: its \<open>request(query, params)\<close> and \<open>response(resp)\<close>
  functions. Either may raise.
\<close>

record engine_module =
  request :: "json \<Rightarrow> pydict \<Rightarrow> exn + pydict"
  response :: "http_response \<Rightarrow> exn + pydict list"

record EngineInfo =
  name :: string
  module_path :: string
  categories :: json
  about :: json
  module :: "engine_module option"
  enabled :: bool

record EngineRegistry =
  engines_dir :: string
  engines :: "(string \<times> EngineInfo) list"

text \<open>
  The network and the interpreter, as far as \<open>search\<close> uses them:
  \<^item> \<open>searxng_get params\<close> is \<open>requests.get(searxng_url, params=params, timeout=5)\<close>
    followed by \<open>raise_for_status()\<close> and \<open>.json()\<close>: the decoded body, or the
    exception any of the three raised;
  \<^item> \<open>http_get url headers\<close> is \<open>requests.get(url, headers=headers, timeout=10)\<close>;
  \<^item> \<open>str_of v\<close> is Python's \<open>str(v)\<close> for a value that is not a string.
\<close>

record env =
  searxng_get :: "pydict \<Rightarrow> exn + json"
  http_get :: "json \<Rightarrow> json \<Rightarrow> exn + http_response"
  str_of :: "json \<Rightarrow> string"

definition py_str :: "env \<Rightarrow> json \<Rightarrow> string" where
  "py_str ev v = (case v of JStr s \<Rightarrow> s | _ \<Rightarrow> str_of ev v)"

definition quoted :: "string \<Rightarrow> string" where
  "quoted s = [CHR 0x27] @ s @ [CHR 0x27]"

subsection \<open>Discovery\<close>

text \<open>
  A \<open>*.py\<close> file of the engines directory, with what importing it does:
  \<open>spec_from_file_location\<close> gives no loader, \<open>exec_module\<close> raises, or the module
  is loaded and has some of the attributes \<open>request\<close>, \<open>response\<close>, \<open>categories\<close>,
  \<open>about\<close>.
\<close>

record module_attrs =
  attr_request :: "(json \<Rightarrow> pydict \<Rightarrow> exn + pydict) option"
  attr_response :: "(http_response \<Rightarrow> exn + pydict list) option"
  attr_categories :: "json option"
  attr_about :: "json option"

datatype import_outcome =
    NoSpec
  | ExecFails exn
  | Loaded module_attrs

text \<open>
  The file system: a path that does not exist is \<open>None\<close>; an existing directory lists
  its entries (name and import outcome) in the order \<open>glob\<close> yields them.
\<close>

type_synonym filesystem = "string \<Rightarrow> (string \<times> import_outcome) list option"

definition endswith :: "string \<Rightarrow> string \<Rightarrow> bool" where
  "endswith s suffix = (length suffix \<le> length s \<and> drop (length s - length suffix) s = suffix)"

definition startswith :: "string \<Rightarrow> string \<Rightarrow> bool" where
  "startswith s pre = (take (length pre) s = pre)"

definition stem :: "string \<Rightarrow> string" where
  "stem fname = (if endswith fname ''.py'' \<and> 3 < length fname
                 then take (length fname - 3) fname else fname)"

definition load_engine_info :: "string \<Rightarrow> string \<times> import_outcome \<Rightarrow> exn + EngineInfo option" where
  "load_engine_info dir f =
     (case snd f of
        NoSpec \<Rightarrow> Inr None
      | ExecFails e \<Rightarrow> Inl e
      | Loaded m \<Rightarrow>
          (case (attr_request m, attr_response m) of
             (Some req, Some resp) \<Rightarrow>
               Inr (Some \<lparr> name = stem (fst f),
                           module_path = dir @ ''/'' @ fst f,
                           categories = (case attr_categories m of Some c \<Rightarrow> c
                                         | None \<Rightarrow> JList [JStr ''general'']),
                           about = (case attr_about m of Some a \<Rightarrow> a | None \<Rightarrow> JDict []),
                           module = Some \<lparr> request = req, response = resp \<rparr>,
                           enabled = True \<rparr>)
           | _ \<Rightarrow> Inr None))"

text \<open>The loop of \<open>_discover_engines\<close> over the globbed files, threading the engines
  dict and the lines printed to standard error.\<close>

fun discover_loop ::
  "string \<Rightarrow> (string \<times> import_outcome) list \<Rightarrow> (string \<times> EngineInfo) list \<times> event list
     \<Rightarrow> (string \<times> EngineInfo) list \<times> event list" where
  "discover_loop dir [] acc = acc"
| "discover_loop dir (f # fs) (engs, out) =
     (if startswith (fst f) ''__'' \<or> fst f = ''base_music.py''
      then discover_loop dir fs (engs, out)
      else (case load_engine_info dir f of
              Inr (Some info) \<Rightarrow> discover_loop dir fs (AList.update (name info) info engs, out)
            | Inr None \<Rightarrow> discover_loop dir fs (engs, out)
            | Inl e \<Rightarrow> discover_loop dir fs
                (engs, out @ [Stderr (''Failed to load engine '' @ fst f @ '': '' @ str_exn e)])))"

definition discover_engines :: "filesystem \<Rightarrow> string \<Rightarrow> exn + (string \<times> EngineInfo) list \<times> event list" where
  "discover_engines fs dir =
     (case fs dir of
        None \<Rightarrow> Inl (ValueError (''Engines directory not found: '' @ dir))
      | Some entries \<Rightarrow>
          Inr (discover_loop dir (filter (\<lambda>f. endswith (fst f) ''.py'') entries) ([], [])))"

text \<open>\<open>EngineRegistry.__init__\<close>: the constructor raises what discovery raises.\<close>

definition EngineRegistry_init :: "filesystem \<Rightarrow> string \<Rightarrow> exn + EngineRegistry \<times> event list" where
  "EngineRegistry_init fs dir =
     (case discover_engines fs dir of
        Inl e \<Rightarrow> Inl e
      | Inr (engs, out) \<Rightarrow> Inr (\<lparr> engines_dir = dir, engines = engs \<rparr>, out))"

subsection \<open>Lookup\<close>

text \<open>\<open>self.engines.get(name)\<close>: a list or dict used as a key is unhashable.\<close>

definition get_engine :: "EngineRegistry \<Rightarrow> json \<Rightarrow> exn + EngineInfo option" where
  "get_engine reg nm =
     (case nm of
        JStr s \<Rightarrow> Inr (map_of (engines reg) s)
      | JList _ \<Rightarrow> Inl (TypeError ''unhashable type: list'')
      | JDict _ \<Rightarrow> Inl (TypeError ''unhashable type: dict'')
      | _ \<Rightarrow> Inr None)"

definition get_enabled_engines :: "EngineRegistry \<Rightarrow> EngineInfo list" where
  "get_enabled_engines reg = filter enabled (map snd (engines reg))"

subsection \<open>search\<close>

definition searxng_url :: string where
  "searxng_url = ''http://localhost:8888/search''"

text \<open>
  \<open>for result in results: result['engine'] = engine_name\<close> on a decoded JSON value.
  A list of dicts is tagged; a non-dict element, a non-empty string or dict, or a value
  that cannot be iterated raises \<open>TypeError\<close>; an empty string or dict iterates zero
  times and contributes no results.
\<close>

fun as_dicts :: "json list \<Rightarrow> pydict list option" where
  "as_dicts [] = Some []"
| "as_dicts (JDict d # xs) = (case as_dicts xs of Some ds \<Rightarrow> Some (d # ds) | None \<Rightarrow> None)"
| "as_dicts (_ # xs) = None"

definition tag_results :: "json \<Rightarrow> pydict list \<Rightarrow> pydict list" where
  "tag_results engine_name results = map (\<lambda>r. dict_set r ''engine'' engine_name) results"

definition tag_json_results :: "json \<Rightarrow> json \<Rightarrow> exn + pydict list" where
  "tag_json_results engine_name results =
     (case results of
        JList xs \<Rightarrow>
          (case as_dicts xs of
             Some ds \<Rightarrow> Inr (tag_results engine_name ds)
           | None \<Rightarrow> Inl (TypeError ''object does not support item assignment''))
      | JStr s \<Rightarrow> if s = [] then Inr []
                  else Inl (TypeError ''str object does not support item assignment'')
      | JDict d \<Rightarrow> if d = [] then Inr []
                   else Inl (TypeError ''str object does not support item assignment'')
      | _ \<Rightarrow> Inl (TypeError ''object is not iterable''))"

text \<open>The first \<open>try\<close> block of \<open>search\<close>: ask the SearXNG instance.\<close>

definition searxng_search :: "env \<Rightarrow> json \<Rightarrow> pydict \<Rightarrow> exn + pydict list" where
  "searxng_search ev engine_name search_params =
     (case searxng_get ev search_params of
        Inl e \<Rightarrow> Inl e
      | Inr (JDict data) \<Rightarrow> tag_json_results engine_name (dict_get data ''results'' (JList []))
      | Inr _ \<Rightarrow> Inl (AttributeError ''object has no attribute get''))"

definition MinimalResponse :: http_response where
  "MinimalResponse = \<lparr> resp_text = '''', status_code = 200, url = '''' \<rparr>"

text \<open>The \<open>except\<close> block of \<open>search\<close>: run the engine module directly.\<close>

definition direct_search ::
  "env \<Rightarrow> engine_module \<Rightarrow> json \<Rightarrow> json \<Rightarrow> pydict \<Rightarrow> (exn + pydict list) \<times> event list" where
  "direct_search ev m engine_name query params =
     (let request_params =
            [(''query'', query),
             (''pageno'', dict_get params ''page'' (JInt 1)),
             (''language'', dict_get params ''language'' (JStr ''all'')),
             (''time_range'', dict_get params ''time_range'' JNull),
             (''safesearch'', dict_get params ''safesearch'' (JInt 0))]
      in case request m query request_params of
           Inl e \<Rightarrow> (Inl e, [])
         | Inr request_result \<Rightarrow>
             (case map_of request_result ''url'' of
                Some u \<Rightarrow>
                  (let hdrs = dict_get request_result ''headers'' (JDict []);
                       get_ev = HttpGet u (case hdrs of JDict h \<Rightarrow> h | _ \<Rightarrow> []);
                       failed = (\<lambda>e. Stderr (''Direct engine execution failed: '' @ str_exn e))
                   in case http_get ev u hdrs of
                        Inl e \<Rightarrow> (Inr [], [get_ev, failed e])
                      | Inr resp \<Rightarrow>
                          (case response m resp of
                             Inl e \<Rightarrow> (Inr [], [get_ev, failed e])
                           | Inr results \<Rightarrow> (Inr (tag_results engine_name results), [get_ev])))
              | None \<Rightarrow>
                  (case response m MinimalResponse of
                     Inl e \<Rightarrow> (Inl e, [])
                   | Inr results \<Rightarrow> (Inr (tag_results engine_name results), []))))"

definition search ::
  "env \<Rightarrow> EngineRegistry \<Rightarrow> json \<Rightarrow> json \<Rightarrow> pydict \<Rightarrow> (exn + pydict list) \<times> event list" where
  "search ev reg engine_name query params =
     (let not_found = ValueError (''Engine '' @ quoted (py_str ev engine_name) @ '' not found or disabled'')
      in case get_engine reg engine_name of
           Inl e \<Rightarrow> (Inl e, [])
         | Inr None \<Rightarrow> (Inl not_found, [])
         | Inr (Some engine) \<Rightarrow>
             if \<not> enabled engine then (Inl not_found, [])
             else (case module engine of
                None \<Rightarrow> (Inl (ValueError (''Engine '' @ quoted (py_str ev engine_name) @ '' module not loaded'')), [])
              | Some m \<Rightarrow>
                  (let search_params =
                         [(''q'', query),
                          (''format'', JStr ''json''),
                          (''engines'', engine_name),
                          (''pageno'', dict_get params ''page'' (JInt 1)),
                          (''language'', dict_get params ''language'' (JStr ''all'')),
                          (''time_range'', dict_get params ''time_range'' (JStr '''')),
                          (''safesearch'', dict_get params ''safesearch'' (JInt 0))];
                       get_ev = HttpGet (JStr searxng_url) search_params
                   in case searxng_search ev engine_name search_params of
                        Inr results \<Rightarrow> (Inr results, [get_ev])
                      | Inl e \<Rightarrow>
                          (let (r, out) = direct_search ev m engine_name query params
                           in (r, [get_ev,
                                   Stderr (''SearXNG not available, using direct engine execution: ''
                                           @ str_exn e)] @ out)))))"

subsection \<open>search\_all\<close>

text \<open>
  The loop of \<open>search_all\<close>: one engine after the other, \<open>all_results\<close> and the trace of
  effects carried along. An exception of \<open>search\<close> is caught, printed and dropped.
\<close>

fun search_all_loop ::
  "env \<Rightarrow> EngineRegistry \<Rightarrow> json \<Rightarrow> pydict \<Rightarrow> EngineInfo list \<Rightarrow> pydict list \<times> event list
     \<Rightarrow> pydict list \<times> event list" where
  "search_all_loop ev reg query params [] acc = acc"
| "search_all_loop ev reg query params (engine # rest) (all_results, out) =
     (case search ev reg (JStr (name engine)) query params of
        (Inr results, evs) \<Rightarrow>
          search_all_loop ev reg query params rest (all_results @ results, out @ evs)
      | (Inl e, evs) \<Rightarrow>
          search_all_loop ev reg query params rest
            (all_results,
             out @ evs @ [Stderr (''Engine '' @ name engine @ '' failed: '' @ str_exn e)]))"

definition search_all ::
  "env \<Rightarrow> EngineRegistry \<Rightarrow> json \<Rightarrow> pydict \<Rightarrow> (exn + pydict list) \<times> event list" where
  "search_all ev reg query params =
     (let (all_results, out) = search_all_loop ev reg query params (get_enabled_engines reg) ([], [])
      in (Inr all_results, out))"

section \<open>protocol.py\<close>

text \<open>\<open>str.strip()\<close> removes the characters for which \<open>str.isspace()\<close> holds from
  both ends: the ASCII controls 9 to 13 and 28 to 31, the space, and the Unicode
  spaces and separators listed below.\<close>

definition isspace :: "nat \<Rightarrow> bool" where
  "isspace c =
     ((9 \<le> c \<and> c \<le> 13) \<or> (28 \<le> c \<and> c \<le> 32) \<or> c = 0x85 \<or> c = 0xA0 \<or> c = 0x1680 \<or>
      (0x2000 \<le> c \<and> c \<le> 0x200A) \<or> c = 0x2028 \<or> c = 0x2029 \<or> c = 0x202F \<or>
      c = 0x205F \<or> c = 0x3000)"

definition strip :: "ustr \<Rightarrow> ustr" where
  "strip s = rev (dropWhile isspace (rev (dropWhile isspace s)))"

record JsonRpcRequest =
  req_method :: json
  req_params :: json
  req_id :: json

record JsonRpcResponse =
  resp_result :: json
  resp_error :: "pydict option"
  resp_id :: json

text \<open>
  What the protocol takes from the interpreter: \<open>json.loads\<close>, the strings
  \<open>str(uuid.uuid4())\<close> yields (the n-th call gives \<open>uuid4 n\<close>),
  \<open>traceback.format_exc()\<close> and \<open>str\<close> on a value that is not a string.
\<close>

record rpc_env =
  loads :: "ustr \<Rightarrow> exn + json"
  uuid4 :: "nat \<Rightarrow> string"
  format_exc :: "exn \<Rightarrow> string"
  rpc_str_of :: "json \<Rightarrow> string"

definition PARSE_ERROR :: int where "PARSE_ERROR = - 32700"
definition INVALID_REQUEST :: int where "INVALID_REQUEST = - 32600"
definition METHOD_NOT_FOUND :: int where "METHOD_NOT_FOUND = - 32601"
definition INVALID_PARAMS :: int where "INVALID_PARAMS = - 32602"
definition INTERNAL_ERROR :: int where "INTERNAL_ERROR = - 32603"

text \<open>\<open>JsonRpcRequest.__init__\<close>: \<open>params or {}\<close> and \<open>id or str(uuid.uuid4())\<close>. The
  second component is the number of uuids drawn so far.\<close>

definition JsonRpcRequest_init :: "rpc_env \<Rightarrow> nat \<Rightarrow> json \<Rightarrow> json \<Rightarrow> json \<Rightarrow> JsonRpcRequest \<times> nat" where
  "JsonRpcRequest_init E n m p i =
     (\<lparr> req_method = m,
        req_params = (if truthy p then p else JDict []),
        req_id = (if truthy i then i else JStr (uuid4 E n)) \<rparr>,
      if truthy i then n else Suc n)"

definition from_dict :: "rpc_env \<Rightarrow> nat \<Rightarrow> pydict \<Rightarrow> JsonRpcRequest \<times> nat" where
  "from_dict E n data =
     JsonRpcRequest_init E n (dict_get data ''method'' (JStr []))
       (dict_get data ''params'' (JDict [])) (dict_get data ''id'' JNull)"

definition success :: "json \<Rightarrow> json \<Rightarrow> JsonRpcResponse" where
  "success res i = \<lparr> resp_result = res, resp_error = None, resp_id = i \<rparr>"

definition error_response :: "int \<Rightarrow> string \<Rightarrow> json \<Rightarrow> json \<Rightarrow> JsonRpcResponse" where
  "error_response code message data i =
     \<lparr> resp_result = JNull,
       resp_error = Some ([(''code'', JInt code), (''message'', JStr message)]
                     @ (if data \<noteq> JNull then [(''data'', data)] else [])),
       resp_id = i \<rparr>"

definition to_dict :: "JsonRpcResponse \<Rightarrow> pydict" where
  "to_dict r =
     [(''jsonrpc'', JStr ''2.0''), (''id'', resp_id r)]
     @ (case resp_error r of Some e \<Rightarrow> [(''error'', JDict e)] | None \<Rightarrow> [(''result'', resp_result r)])"

text \<open>
  \<open>read_request\<close> on the line \<open>readline\<close> returned (the empty string at end of input).
  The result is the request or \<open>None\<close>, the responses it wrote to standard output, and
  the uuid counter.
\<close>

definition read_request :: "rpc_env \<Rightarrow> nat \<Rightarrow> ustr \<Rightarrow> JsonRpcRequest option \<times> pydict list \<times> nat" where
  "read_request E n line =
     (if line = [] then (None, [], n)
      else (case loads E (strip line) of
              Inl (JSONDecodeError m) \<Rightarrow>
                (None, [to_dict (error_response PARSE_ERROR ''Parse error'' (JStr m) JNull)], n)
            | Inl e \<Rightarrow>
                (None, [to_dict (error_response INTERNAL_ERROR ''Internal error'' (JStr (str_exn e)) JNull)], n)
            | Inr (JDict data) \<Rightarrow> (let (rq, n') = from_dict E n data in (Some rq, [], n'))
            | Inr _ \<Rightarrow>
                (None, [to_dict (error_response INTERNAL_ERROR ''Internal error''
                                   (JStr ''object has no attribute get'') JNull)], n)))"

text \<open>
  A handler takes the keyword arguments and the service state, and returns its result or
  the exception it raised, with the state it left. \<open>handlers\<close> is the dispatch table.
\<close>

type_synonym 'st handler = "pydict \<Rightarrow> 'st \<Rightarrow> (exn + json) \<times> 'st"

text \<open>
  \<open>handle_request\<close>. The membership test \<open>method not in self.handlers\<close> stands outside
  the \<open>try\<close>: a list or dict as method is unhashable and the \<open>TypeError\<close> leaves
  \<open>handle_request\<close> (\<open>Inl\<close>).
\<close>

definition handle_request ::
  "rpc_env \<Rightarrow> (string \<times> 'st handler) list \<Rightarrow> JsonRpcRequest \<Rightarrow> 'st \<Rightarrow> exn + JsonRpcResponse \<times> 'st" where
  "handle_request E handlers rq st =
     (let not_found = (\<lambda>nm. Inr (error_response METHOD_NOT_FOUND
                                   (''Method '' @ quoted nm @ '' not found'') JNull (req_id rq), st))
      in case req_method rq of
           JList _ \<Rightarrow> Inl (TypeError ''unhashable type: list'')
         | JDict _ \<Rightarrow> Inl (TypeError ''unhashable type: dict'')
         | JStr m \<Rightarrow>
             (case map_of handlers m of
                None \<Rightarrow> not_found m
              | Some h \<Rightarrow>
                  (case req_params rq of
                     JDict kwargs \<Rightarrow>
                       (case h kwargs st of
                          (Inr res, st') \<Rightarrow> Inr (success res (req_id rq), st')
                        | (Inl (TypeError m), st') \<Rightarrow>
                            Inr (error_response INVALID_PARAMS ''Invalid parameters'' (JStr m) (req_id rq), st')
                        | (Inl e, st') \<Rightarrow>
                            Inr (error_response INTERNAL_ERROR ''Internal error''
                                   (JDict [(''error'', JStr (str_exn e)),
                                           (''traceback'', JStr (format_exc E e))]) (req_id rq), st'))
                   | _ \<Rightarrow>
                       Inr (error_response INVALID_PARAMS ''Invalid parameters''
                              (JStr ''argument after ** must be a mapping'') (req_id rq), st)))
         | v \<Rightarrow> not_found (rpc_str_of E v))"

text \<open>
  \<open>run\<close>: the loop over the lines of standard input. It ends when \<open>read_request\<close>
  returns \<open>None\<close> or when \<open>handle_request\<close> raises. The outcome records what was
  written to standard output, the service state, the lines never read, and the
  exception that ended the process, if any.
\<close>

record 'st run_outcome =
  stdout :: "pydict list"
  final :: 'st
  unread :: "ustr list"
  raised :: "exn option"

fun run_loop ::
  "rpc_env \<Rightarrow> (string \<times> 'st handler) list \<Rightarrow> ustr list \<Rightarrow> nat \<Rightarrow> pydict list \<Rightarrow> 'st \<Rightarrow> 'st run_outcome" where
  "run_loop E handlers [] n out st = \<lparr> stdout = out, final = st, unread = [], raised = None \<rparr>"
| "run_loop E handlers (line # rest) n out st =
     (case read_request E n line of
        (None, written, n') \<Rightarrow>
          \<lparr> stdout = out @ written, final = st, unread = rest, raised = None \<rparr>
      | (Some rq, written, n') \<Rightarrow>
          (case handle_request E handlers rq st of
             Inl e \<Rightarrow> \<lparr> stdout = out @ written, final = st, unread = rest, raised = Some e \<rparr>
           | Inr (resp, st') \<Rightarrow> run_loop E handlers rest n' (out @ written @ [to_dict resp]) st'))"

definition run :: "rpc_env \<Rightarrow> (string \<times> 'st handler) list \<Rightarrow> ustr list \<Rightarrow> 'st \<Rightarrow> 'st run_outcome" where
  "run E handlers stdin st = run_loop E handlers stdin 0 [] st"

section \<open>engine\_service.py\<close>

text \<open>
  The service owns the registry. Its handlers read the clock (\<open>time.time()\<close>: the n-th
  reading is \<open>time_at n\<close>) and reach the network through \<open>search\<close>; the state counts
  the clock readings and keeps the trace of effects.
\<close>

record service_env =
  net :: env
  time_at :: "nat \<Rightarrow> real"

record EngineService =
  registry :: EngineRegistry
  time_calls :: nat
  effects :: "event list"

text \<open>
  \<open>handler(**request.params)\<close>: binding keyword arguments to a signature with the
  named parameters \<open>required\<close> and, when \<open>var_kw\<close>, a trailing \<open>**params\<close>. The
  handlers are bound methods, so a keyword \<open>self\<close> collides with the receiver; it, a
  keyword the signature does not take and a missing parameter raise \<open>TypeError\<close>.
\<close>

definition bind_kwargs :: "string list \<Rightarrow> bool \<Rightarrow> pydict \<Rightarrow> exn + json list \<times> pydict" where
  "bind_kwargs required var_kw kwargs =
     (let rest = filter (\<lambda>kv. fst kv \<notin> set required) kwargs
      in if map_of kwargs ''self'' \<noteq> None
         then Inl (TypeError ''got multiple values for argument self'')
         else if \<not> var_kw \<and> rest \<noteq> []
         then Inl (TypeError (''got an unexpected keyword argument '' @ quoted (fst (hd rest))))
         else (case find (\<lambda>k. map_of kwargs k = None) required of
                 Some k \<Rightarrow> Inl (TypeError (''missing 1 required positional argument: '' @ quoted k))
               | None \<Rightarrow> Inr (map (\<lambda>k. dict_get kwargs k JNull) required, rest)))"

definition EngineInfo_to_dict :: "EngineInfo \<Rightarrow> pydict" where
  "EngineInfo_to_dict e =
     [(''name'', JStr (name e)),
      (''module_path'', JStr (module_path e)),
      (''categories'', categories e),
      (''about'', about e),
      (''enabled'', JBool (enabled e))]"

definition list_engines :: "EngineRegistry \<Rightarrow> json" where
  "list_engines reg = JList (map (\<lambda>kv. JDict (EngineInfo_to_dict (snd kv))) (engines reg))"

definition handle_ping :: "service_env \<Rightarrow> EngineService \<Rightarrow> json \<times> EngineService" where
  "handle_ping E st =
     (JDict [(''status'', JStr ''ok''),
             (''timestamp'', JFloat (time_at E (time_calls st))),
             (''engines_count'', JInt (int (length (engines (registry st)))))],
      st\<lparr> time_calls := Suc (time_calls st) \<rparr>)"

definition handle_list_engines :: "EngineService \<Rightarrow> json \<times> EngineService" where
  "handle_list_engines st = (list_engines (registry st), st)"

definition handle_search :: "service_env \<Rightarrow> json \<Rightarrow> json \<Rightarrow> pydict \<Rightarrow> EngineService \<Rightarrow> json \<times> EngineService" where
  "handle_search E engine query params st =
     (let start_time = time_at E (time_calls st);
          (r, evs) = search (net E) (registry st) engine query params;
          response_time = time_at E (Suc (time_calls st)) - start_time;
          st' = st\<lparr> time_calls := Suc (Suc (time_calls st)), effects := effects st @ evs \<rparr>
      in case r of
           Inr results \<Rightarrow>
             (JDict [(''success'', JBool True),
                     (''engine'', engine),
                     (''query'', query),
                     (''results'', JList (map JDict results)),
                     (''count'', JInt (int (length results))),
                     (''response_time'', JFloat response_time)], st')
         | Inl e \<Rightarrow>
             (JDict [(''success'', JBool False),
                     (''engine'', engine),
                     (''query'', query),
                     (''error'', JStr (str_exn e)),
                     (''response_time'', JFloat response_time)], st'))"

text \<open>
  The grouping loop of \<open>handle_search_all\<close>: \<open>results_by_engine\<close> keyed by each
  result's \<open>engine\<close> entry (\<open>'unknown'\<close> without one). A list or dict as key is
  unhashable; any other value that is not a string is written by its \<open>str\<close>.
\<close>

fun group_loop ::
  "(json \<Rightarrow> string) \<Rightarrow> pydict list \<Rightarrow> (string \<times> pydict list) list \<Rightarrow> exn + (string \<times> pydict list) list" where
  "group_loop sf [] acc = Inr acc"
| "group_loop sf (r # rs) acc =
     (case dict_get r ''engine'' (JStr ''unknown'') of
        JList _ \<Rightarrow> Inl (TypeError ''unhashable type: list'')
      | JDict _ \<Rightarrow> Inl (TypeError ''unhashable type: dict'')
      | v \<Rightarrow>
          (let k = (case v of JStr s \<Rightarrow> s | _ \<Rightarrow> sf v);
               sofar = (case map_of acc k of Some l \<Rightarrow> l | None \<Rightarrow> [])
           in group_loop sf rs (AList.update k (sofar @ [r]) acc)))"

definition handle_search_all :: "service_env \<Rightarrow> json \<Rightarrow> pydict \<Rightarrow> EngineService \<Rightarrow> json \<times> EngineService" where
  "handle_search_all E query params st =
     (let start_time = time_at E (time_calls st);
          (r, evs) = search_all (net E) (registry st) query params;
          response_time = time_at E (Suc (time_calls st)) - start_time;
          st' = st\<lparr> time_calls := Suc (Suc (time_calls st)), effects := effects st @ evs \<rparr>;
          failure = (\<lambda>e. JDict [(''success'', JBool False),
                                 (''query'', query),
                                 (''error'', JStr (str_exn e)),
                                 (''response_time'', JFloat response_time)])
      in case r of
           Inl e \<Rightarrow> (failure e, st')
         | Inr results \<Rightarrow>
             (case group_loop (str_of (net E)) results [] of
                Inl e \<Rightarrow> (failure e, st')
              | Inr results_by_engine \<Rightarrow>
                  (JDict [(''success'', JBool True),
                          (''query'', query),
                          (''results'', JList (map JDict results)),
                          (''results_by_engine'',
                             JDict (map (\<lambda>kv. (fst kv, JList (map JDict (snd kv)))) results_by_engine)),
                          (''total_count'', JInt (int (length results))),
                          (''engine_count'', JInt (int (length results_by_engine))),
                          (''response_time'', JFloat response_time)], st')))"

definition engine_not_found :: "env \<Rightarrow> json \<Rightarrow> json" where
  "engine_not_found ev engine =
     JDict [(''success'', JBool False),
            (''error'', JStr (''Engine '' @ quoted (py_str ev engine) @ '' not found''))]"

definition handle_get_engine_info :: "service_env \<Rightarrow> json \<Rightarrow> EngineService \<Rightarrow> (exn + json) \<times> EngineService" where
  "handle_get_engine_info E engine st =
     (case get_engine (registry st) engine of
        Inl e \<Rightarrow> (Inl e, st)
      | Inr None \<Rightarrow> (Inr (engine_not_found (net E) engine), st)
      | Inr (Some info) \<Rightarrow>
          (Inr (JDict [(''success'', JBool True), (''engine'', JDict (EngineInfo_to_dict info))]), st))"

text \<open>\<open>engine_info.enabled = flag\<close> on the object the registry holds.\<close>

definition set_enabled :: "service_env \<Rightarrow> bool \<Rightarrow> json \<Rightarrow> EngineService \<Rightarrow> (exn + json) \<times> EngineService" where
  "set_enabled E flag engine st =
     (case get_engine (registry st) engine of
        Inl e \<Rightarrow> (Inl e, st)
      | Inr None \<Rightarrow> (Inr (engine_not_found (net E) engine), st)
      | Inr (Some info) \<Rightarrow>
          (Inr (JDict [(''success'', JBool True), (''engine'', engine), (''enabled'', JBool flag)]),
           st\<lparr> registry := (registry st)\<lparr> engines :=
                  AList.update (name info) (info\<lparr> enabled := flag \<rparr>) (engines (registry st)) \<rparr> \<rparr>))"

definition handle_enable_engine :: "service_env \<Rightarrow> json \<Rightarrow> EngineService \<Rightarrow> (exn + json) \<times> EngineService" where
  "handle_enable_engine E engine st = set_enabled E True engine st"

definition handle_disable_engine :: "service_env \<Rightarrow> json \<Rightarrow> EngineService \<Rightarrow> (exn + json) \<times> EngineService" where
  "handle_disable_engine E engine st = set_enabled E False engine st"

text \<open>The dispatch table \<open>EngineService.__init__\<close> registers, each handler behind the
  binding of its keyword arguments.\<close>

definition service_handlers :: "service_env \<Rightarrow> (string \<times> EngineService handler) list" where
  "service_handlers E =
     [(''ping'', \<lambda>kw st. case bind_kwargs [] False kw of
          Inl e \<Rightarrow> (Inl e, st)
        | Inr _ \<Rightarrow> (let (r, st') = handle_ping E st in (Inr r, st'))),
      (''list_engines'', \<lambda>kw st. case bind_kwargs [] False kw of
          Inl e \<Rightarrow> (Inl e, st)
        | Inr _ \<Rightarrow> (let (r, st') = handle_list_engines st in (Inr r, st'))),
      (''search'', \<lambda>kw st. case bind_kwargs [''engine'', ''query''] True kw of
          Inr ([engine, query], rest) \<Rightarrow>
            (let (r, st') = handle_search E engine query rest st in (Inr r, st'))
        | Inr _ \<Rightarrow> (Inl (TypeError ''missing required positional arguments''), st)
        | Inl e \<Rightarrow> (Inl e, st)),
      (''search_all'', \<lambda>kw st. case bind_kwargs [''query''] True kw of
          Inr ([query], rest) \<Rightarrow>
            (let (r, st') = handle_search_all E query rest st in (Inr r, st'))
        | Inr _ \<Rightarrow> (Inl (TypeError ''missing required positional arguments''), st)
        | Inl e \<Rightarrow> (Inl e, st)),
      (''get_engine_info'', \<lambda>kw st. case bind_kwargs [''engine''] False kw of
          Inr ([engine], rest) \<Rightarrow> handle_get_engine_info E engine st
        | Inr _ \<Rightarrow> (Inl (TypeError ''missing required positional arguments''), st)
        | Inl e \<Rightarrow> (Inl e, st)),
      (''enable_engine'', \<lambda>kw st. case bind_kwargs [''engine''] False kw of
          Inr ([engine], rest) \<Rightarrow> handle_enable_engine E engine st
        | Inr _ \<Rightarrow> (Inl (TypeError ''missing required positional arguments''), st)
        | Inl e \<Rightarrow> (Inl e, st)),
      (''disable_engine'', \<lambda>kw st. case bind_kwargs [''engine''] False kw of
          Inr ([engine], rest) \<Rightarrow> handle_disable_engine E engine st
        | Inr _ \<Rightarrow> (Inl (TypeError ''missing required positional arguments''), st)
        | Inl e \<Rightarrow> (Inl e, st))]"

text \<open>\<open>EngineService.run\<close>: the protocol loop over the service's handlers.\<close>

definition service_rpc_env :: "rpc_env \<Rightarrow> service_env \<Rightarrow> rpc_env" where
  "service_rpc_env R E = R\<lparr> rpc_str_of := str_of (net E) \<rparr>"

definition EngineService_run ::
  "rpc_env \<Rightarrow> service_env \<Rightarrow> ustr list \<Rightarrow> EngineService \<Rightarrow> EngineService run_outcome" where
  "EngineService_run R E stdin st = run (service_rpc_env R E) (service_handlers E) stdin st"

section \<open>cache\_service.py\<close>

text \<open>
  The Redis server, as far as the cache uses it: string keys with an expiry time, the
  hash \<open>cache:stats\<close> and the sorted set \<open>popular:queries\<close>, whose members are the
  encoded queries. Time is the server's
  clock in seconds; a key set at \<open>now\<close> with \<open>ttl\<close> is gone from \<open>now + ttl\<close> on.
  Every command raises while the server is unreachable (\<open>up\<close> is false), and
  \<open>SETEX\<close> rejects an expiry that is not positive.
\<close>

record redis =
  up :: bool
  strings :: "(string \<times> string \<times> int) list"
  cache_stats :: "(string \<times> int) list"
  popular :: "(bytes \<times> int) list"

definition redis_get :: "int \<Rightarrow> redis \<Rightarrow> string \<Rightarrow> exn + string option" where
  "redis_get now r k =
     (if \<not> up r then Inl (OtherError ''ConnectionError'')
      else Inr (case map_of (strings r) k of
                  Some (v, expires) \<Rightarrow> if now < expires then Some v else None
                | None \<Rightarrow> None))"

definition redis_setex :: "int \<Rightarrow> redis \<Rightarrow> string \<Rightarrow> int \<Rightarrow> string \<Rightarrow> exn + redis" where
  "redis_setex now r k ttl v =
     (if \<not> up r then Inl (OtherError ''ConnectionError'')
      else if ttl \<le> 0 then Inl (OtherError ''invalid expire time in setex'')
      else Inr (r\<lparr> strings := AList.update k (v, now + ttl) (strings r) \<rparr>))"

definition counter :: "('k \<times> int) list \<Rightarrow> 'k \<Rightarrow> int" where
  "counter h field = (case map_of h field of Some n \<Rightarrow> n | None \<Rightarrow> 0)"

definition redis_hincrby :: "redis \<Rightarrow> string \<Rightarrow> int \<Rightarrow> exn + redis" where
  "redis_hincrby r field n =
     (if \<not> up r then Inl (OtherError ''ConnectionError'')
      else Inr (r\<lparr> cache_stats := AList.update field (counter (cache_stats r) field + n) (cache_stats r) \<rparr>))"

definition redis_zincrby :: "redis \<Rightarrow> int \<Rightarrow> bytes \<Rightarrow> exn + redis" where
  "redis_zincrby r n member =
     (if \<not> up r then Inl (OtherError ''ConnectionError'')
      else Inr (r\<lparr> popular := AList.update member (counter (popular r) member + n) (popular r) \<rparr>))"

text \<open>\<open>ZREVRANGE popular:queries 0 9 WITHSCORES\<close>: highest score first, ties by member,
  highest first.\<close>

definition redis_zrevrange_top10 :: "redis \<Rightarrow> exn + (bytes \<times> int) list" where
  "redis_zrevrange_top10 r =
     (if \<not> up r then Inl (OtherError ''ConnectionError'')
      else Inr (take 10 (rev (sort_key (\<lambda>ms. (snd ms, fst ms)) (popular r)))))"

definition redis_keys_search :: "int \<Rightarrow> redis \<Rightarrow> exn + string list" where
  "redis_keys_search now r =
     (if \<not> up r then Inl (OtherError ''ConnectionError'')
      else Inr (map fst (filter (\<lambda>kv. startswith (fst kv) ''search:v1:'' \<and> now < snd (snd kv))
                           (strings r))))"

text \<open>
  The rows of the interpreter's Unicode character database that \<open>str.lower()\<close>
  reads: the full lower-case mapping of a code point, and whether it is cased and
  case-ignorable. The rows of the ASCII characters and of the whitespace characters are
  written out below; \<open>ucd\<close> holds the others.
\<close>

record ucd =
  lower_full :: "nat \<Rightarrow> ustr"
  cased :: "nat \<Rightarrow> bool"
  case_ignorable :: "nat \<Rightarrow> bool"

definition to_lower_full :: "ucd \<Rightarrow> nat \<Rightarrow> ustr" where
  "to_lower_full U c =
     (if 65 \<le> c \<and> c \<le> 90 then [c + 32]
      else if c < 128 \<or> isspace c then [c]
      else lower_full U c)"

definition is_cased :: "ucd \<Rightarrow> nat \<Rightarrow> bool" where
  "is_cased U c =
     (if c < 128 then (65 \<le> c \<and> c \<le> 90) \<or> (97 \<le> c \<and> c \<le> 122)
      else if isspace c then False
      else cased U c)"

definition is_case_ignorable :: "ucd \<Rightarrow> nat \<Rightarrow> bool" where
  "is_case_ignorable U c =
     (if c < 128 then c = 0x27 \<or> c = 0x2E \<or> c = 0x3A \<or> c = 0x5E \<or> c = 0x60
      else if isspace c then False
      else case_ignorable U c)"

text \<open>
  \<open>str.lower()\<close> maps each code point by its full lower-case mapping, but for the
  capital sigma \<open>U+03A3\<close>: it becomes the final sigma \<open>U+03C2\<close> when, case-ignorable
  characters skipped, a cased character stands before it and none after it, and the
  small sigma \<open>U+03C3\<close> otherwise. \<open>next_cased\<close> skips the case-ignorable characters
  of a text and tells whether a cased one follows; \<open>lower_from\<close> carries the text
  already read, last character first.
\<close>

definition next_cased :: "ucd \<Rightarrow> ustr \<Rightarrow> bool" where
  "next_cased U cs =
     (case dropWhile (is_case_ignorable U) cs of [] \<Rightarrow> False | c # _ \<Rightarrow> is_cased U c)"

definition final_sigma :: "ucd \<Rightarrow> ustr \<Rightarrow> ustr \<Rightarrow> bool" where
  "final_sigma U before after = (next_cased U before \<and> \<not> next_cased U after)"

fun lower_from :: "ucd \<Rightarrow> ustr \<Rightarrow> ustr \<Rightarrow> ustr" where
  "lower_from U before [] = []"
| "lower_from U before (c # cs) =
     (if c = 0x3A3 then [if final_sigma U before cs then 0x3C2 else 0x3C3]
      else to_lower_full U c)
     @ lower_from U (c # before) cs"

definition lower :: "ucd \<Rightarrow> ustr \<Rightarrow> ustr" where
  "lower U s = lower_from U [] s"

text \<open>\<open>str.encode()\<close>: UTF-8, which refuses the surrogate code points.\<close>

definition utf8 :: "nat \<Rightarrow> bytes" where
  "utf8 c =
     (if c < 0x80 then [c]
      else if c < 0x800 then [0xC0 + c div 0x40, 0x80 + c mod 0x40]
      else if c < 0x10000 then [0xE0 + c div 0x1000, 0x80 + c div 0x40 mod 0x40, 0x80 + c mod 0x40]
      else [0xF0 + c div 0x40000, 0x80 + c div 0x1000 mod 0x40, 0x80 + c div 0x40 mod 0x40,
            0x80 + c mod 0x40])"

fun encode :: "ustr \<Rightarrow> exn + bytes" where
  "encode [] = Inr []"
| "encode (c # cs) =
     (if 0xD800 \<le> c \<and> c \<le> 0xDFFF
      then Inl (OtherError ''UnicodeEncodeError: surrogates not allowed'')
      else (case encode cs of Inl e \<Rightarrow> Inl e | Inr bs \<Rightarrow> Inr (utf8 c @ bs)))"

text \<open>
  What the cache takes from the interpreter: \<open>json.dumps\<close>, \<open>json.loads\<close>, the
  Unicode database, \<open>hashlib.md5(b).hexdigest()\<close> and
  \<open>datetime.utcnow().isoformat()\<close> at a given time.
\<close>

record cache_env =
  json_dumps :: "json \<Rightarrow> string"
  json_loads :: "string \<Rightarrow> exn + json"
  unicode :: ucd
  md5_hexdigest :: "bytes \<Rightarrow> string"
  utcnow_isoformat :: "int \<Rightarrow> string"

text \<open>\<open>redis_client\<close> is \<open>None\<close> when \<open>_connect\<close> failed.\<close>

record CacheService =
  redis_client :: "redis option"
  default_ttl :: int
  max_results_per_query :: int

fun join :: "'a list \<Rightarrow> 'a list list \<Rightarrow> 'a list" where
  "join sep [] = []"
| "join sep [x] = x"
| "join sep (x # y # ys) = x @ sep @ join sep (y # ys)"

definition names_str :: "ustr list option \<Rightarrow> ustr" where
  "names_str names =
     (case names of
        Some ns \<Rightarrow> if ns \<noteq> [] then join (ustr_of '','') (sort ns) else ustr_of ''all''
      | None \<Rightarrow> ustr_of ''all'')"

text \<open>\<open>_generate_cache_key\<close>. It raises when the key string cannot be encoded.\<close>

definition generate_cache_key ::
  "cache_env \<Rightarrow> ustr \<Rightarrow> ustr list option \<Rightarrow> ustr list option \<Rightarrow> exn + string" where
  "generate_cache_key E query engs cats =
     (let query_lower = strip (lower (unicode E) query);
          engines_str = names_str engs;
          categories_str = names_str cats;
          key_parts = [ustr_of ''query:'' @ query_lower,
                       ustr_of ''engines:'' @ engines_str,
                       ustr_of ''categories:'' @ categories_str];
          key_string = join (ustr_of ''|'') key_parts
      in case encode key_string of
           Inl e \<Rightarrow> Inl e
         | Inr encoded \<Rightarrow> Inr (''search:v1:'' @ take 16 (md5_hexdigest E encoded)))"

text \<open>\<open>len(x)\<close> and the slice \<open>x[:m]\<close>.\<close>

definition py_len :: "json \<Rightarrow> nat option" where
  "py_len v = (case v of JList xs \<Rightarrow> Some (length xs) | JStr s \<Rightarrow> Some (length s)
               | JDict d \<Rightarrow> Some (length d) | _ \<Rightarrow> None)"

definition slice_to :: "'a list \<Rightarrow> int \<Rightarrow> 'a list" where
  "slice_to xs m = (if 0 \<le> m then take (nat m) xs else take (length xs - nat (- m)) xs)"

text \<open>The first step of \<open>set\<close>: cap the \<open>results\<close> entry at \<open>max_results_per_query\<close>
  and mark the dict \<open>truncated\<close>.\<close>

definition limit_results :: "int \<Rightarrow> pydict \<Rightarrow> exn + pydict" where
  "limit_results mx results =
     (case map_of results ''results'' of
        None \<Rightarrow> Inr results
      | Some v \<Rightarrow>
          (case py_len v of
             None \<Rightarrow> Inl (TypeError ''object has no len'')
           | Some n \<Rightarrow>
               if mx < int n
               then (case v of
                       JList xs \<Rightarrow>
                         Inr (dict_set (dict_set results ''results'' (JList (slice_to xs mx)))
                                ''truncated'' (JBool True))
                     | JStr s \<Rightarrow>
                         Inr (dict_set (dict_set results ''results'' (JStr (slice_to s mx)))
                                ''truncated'' (JBool True))
                     | _ \<Rightarrow> Inl (TypeError ''unhashable type: slice''))
               else Inr results))"

definition cache_metadata :: "cache_env \<Rightarrow> int \<Rightarrow> int \<Rightarrow> string \<Rightarrow> pydict \<Rightarrow> pydict" where
  "cache_metadata E now ttl cache_key results =
     dict_set (dict_set (dict_set results
       ''cached_at'' (JStr (utcnow_isoformat E now)))
       ''cache_ttl'' (JInt ttl))
       ''cache_key'' (JStr cache_key)"

definition with_redis :: "CacheService \<Rightarrow> redis \<Rightarrow> CacheService" where
  "with_redis cs r = cs\<lparr> redis_client := Some r \<rparr>"

text \<open>
  \<open>set\<close> and \<open>get\<close>. The cache key is derived before the \<open>try\<close>, so what
  \<open>_generate_cache_key\<close> raises leaves the method (\<open>Inl\<close>); everything after it is
  caught. The Redis client sends the query of \<open>zincrby\<close> encoded.
\<close>

definition CacheService_set ::
  "cache_env \<Rightarrow> int \<Rightarrow> CacheService \<Rightarrow> ustr \<Rightarrow> pydict \<Rightarrow> ustr list option \<Rightarrow> ustr list option
     \<Rightarrow> int option \<Rightarrow> exn + bool \<times> CacheService" where
  "CacheService_set E now cs query results engs cats ttl_arg =
     (case redis_client cs of
        None \<Rightarrow> Inr (False, cs)
      | Some r \<Rightarrow>
          (case generate_cache_key E query engs cats of
             Inl e \<Rightarrow> Inl e
           | Inr cache_key \<Rightarrow>
               (let ttl = (case ttl_arg of Some t \<Rightarrow> if t \<noteq> 0 then t else default_ttl cs
                           | None \<Rightarrow> default_ttl cs)
                in case limit_results (max_results_per_query cs) results of
                     Inl e \<Rightarrow> Inr (False, cs)
                   | Inr limited \<Rightarrow>
                       (let cache_data = cache_metadata E now ttl cache_key limited
                        in case redis_setex now r cache_key ttl (json_dumps E (JDict cache_data)) of
                             Inl e \<Rightarrow> Inr (False, cs)
                           | Inr r1 \<Rightarrow>
                               (case redis_hincrby r1 ''sets'' 1 of
                                  Inl e \<Rightarrow> Inr (False, with_redis cs r1)
                                | Inr r2 \<Rightarrow>
                                    (case encode query of
                                       Inl e \<Rightarrow> Inr (False, with_redis cs r2)
                                     | Inr member \<Rightarrow>
                                         (case redis_zincrby r2 1 member of
                                            Inl e \<Rightarrow> Inr (False, with_redis cs r2)
                                          | Inr r3 \<Rightarrow> Inr (True, with_redis cs r3))))))))"

definition CacheService_get ::
  "cache_env \<Rightarrow> int \<Rightarrow> CacheService \<Rightarrow> ustr \<Rightarrow> ustr list option \<Rightarrow> ustr list option
     \<Rightarrow> exn + json option \<times> CacheService" where
  "CacheService_get E now cs query engs cats =
     (case redis_client cs of
        None \<Rightarrow> Inr (None, cs)
      | Some r \<Rightarrow>
          (case generate_cache_key E query engs cats of
             Inl e \<Rightarrow> Inl e
           | Inr cache_key \<Rightarrow>
               (let miss = (case redis_hincrby r ''misses'' 1 of
                              Inl e \<Rightarrow> (None, cs)
                            | Inr r' \<Rightarrow> (None, with_redis cs r'))
                in case redis_get now r cache_key of
                     Inl e \<Rightarrow> Inr (None, cs)
                   | Inr None \<Rightarrow> Inr miss
                   | Inr (Some cached_data) \<Rightarrow>
                       if cached_data = [] then Inr miss
                       else (case json_loads E cached_data of
                               Inl e \<Rightarrow> Inr (None, cs)
                             | Inr res \<Rightarrow>
                                 (case redis_hincrby r ''hits'' 1 of
                                    Inl e \<Rightarrow> Inr (None, cs)
                                  | Inr r' \<Rightarrow> Inr (Some res, with_redis cs r'))))))"

text \<open>
  \<open>round(x, ndigits)\<close> in exact arithmetic: to the nearest multiple of
  \<open>10 ^ (- ndigits)\<close>, a tie to the even one. (The interpreter rounds the binary
  float; the two agree wherever \<open>hits / total * 100\<close> is computed exactly.)
\<close>

definition round_half_even :: "real \<Rightarrow> int" where
  "round_half_even x =
     (let f = \<lfloor>x\<rfloor>; d = x - of_int f
      in if d < 1 / 2 then f else if 1 / 2 < d then f + 1 else if even f then f else f + 1)"

definition py_round :: "real \<Rightarrow> nat \<Rightarrow> real" where
  "py_round x ndigits = of_int (round_half_even (x * 10 ^ ndigits)) / 10 ^ ndigits"

definition calculate_hit_rate :: "(string \<times> int) list \<Rightarrow> real" where
  "calculate_hit_rate stats =
     (let hits = counter stats ''hits'';
          misses = counter stats ''misses'';
          total = hits + misses
      in if total = 0 then 0
         else py_round ((of_int hits / of_int total) * 100) 2)"

definition get_stats :: "int \<Rightarrow> CacheService \<Rightarrow> pydict" where
  "get_stats now cs =
     (case redis_client cs of
        None \<Rightarrow> [(''status'', JStr ''disconnected'')]
      | Some r \<Rightarrow>
          (let failed = (\<lambda>e. [(''status'', JStr ''error''), (''error'', JStr (str_exn e))])
           in if \<not> up r then failed (OtherError ''ConnectionError'')
              else (case (redis_zrevrange_top10 r, redis_keys_search now r) of
                      (Inr popular_queries, Inr cache_keys) \<Rightarrow>
                        (let stats = cache_stats r
                         in [(''status'', JStr ''connected''),
                             (''hits'', JInt (counter stats ''hits'')),
                             (''misses'', JInt (counter stats ''misses'')),
                             (''sets'', JInt (counter stats ''sets'')),
                             (''hit_rate'', JFloat (calculate_hit_rate stats)),
                             (''cache_entries'', JInt (int (length cache_keys))),
                             (''popular_queries'',
                                JList (map (\<lambda>qs. JDict [(''query'', JStr (map char_of (fst qs))),
                                                         (''count'', JInt (snd qs))])
                                         popular_queries))])
                    | (Inl e, _) \<Rightarrow> failed e
                    | (_, Inl e) \<Rightarrow> failed e)))"

section \<open>Notions the properties are stated with\<close>

text \<open>What one engine's \<open>search\<close> adds to the merged list: its results, or nothing when
  it raised.\<close>

definition contributed :: "(exn + pydict list) \<times> event list \<Rightarrow> pydict list" where
  "contributed r = (case fst r of Inr results \<Rightarrow> results | Inl e \<Rightarrow> [])"

text \<open>An adapter file that does not make an engine: it cannot be imported, or the module
  lacks \<open>request\<close> or \<open>response\<close>.\<close>

fun malformed :: "string \<times> import_outcome \<Rightarrow> bool" where
  "malformed (fname, NoSpec) = True"
| "malformed (fname, ExecFails e) = True"
| "malformed (fname, Loaded m) = (attr_request m = None \<or> attr_response m = None)"

text \<open>Reading a response object: its keys, and one of its members.\<close>

definition response_keys :: "json \<Rightarrow> string list" where
  "response_keys v = (case v of JDict d \<Rightarrow> map fst d | _ \<Rightarrow> [])"

definition json_member :: "json \<Rightarrow> string \<Rightarrow> json option" where
  "json_member v k = (case v of JDict d \<Rightarrow> map_of d k | _ \<Rightarrow> None)"

text \<open>The engine names that tag at least one result of a list.\<close>

definition tags :: "pydict list \<Rightarrow> string set" where
  "tags rs = {s. \<exists>r \<in> set rs. map_of r ''engine'' = Some (JStr s)}"



section \<open>Example inputs\<close>

text \<open>
  A registry of three engines, with SearXNG unreachable so that every search runs the
  engine module directly: \<open>alpha\<close> fetches a URL and parses one result, \<open>beta\<close>'s
  \<open>request\<close> raises, \<open>gamma\<close> needs no fetch and parses two results.
\<close>

definition ex_env :: env where
  "ex_env = \<lparr> searxng_get = (\<lambda>ps. Inl (OtherError ''Connection refused'')),
              http_get = (\<lambda>u h. Inr \<lparr> resp_text = ''body'', status_code = 200, url = [] \<rparr>),
              str_of = (\<lambda>v. ''?'') \<rparr>"

definition ex_engine :: "string \<Rightarrow> engine_module \<Rightarrow> EngineInfo" where
  "ex_engine nm m = \<lparr> name = nm, module_path = ''/engines/'' @ nm @ ''.py'',
       categories = JList [JStr ''music''], about = JDict [], module = Some m, enabled = True \<rparr>"

definition ex_alpha :: EngineInfo where
  "ex_alpha = ex_engine ''alpha''
     \<lparr> request = (\<lambda>q ps. Inr [(''url'', JStr ''http://alpha.example/'')]),
       response = (\<lambda>resp. Inr [[(''title'', JStr ''A1'')]]) \<rparr>"

definition ex_beta :: EngineInfo where
  "ex_beta = ex_engine ''beta''
     \<lparr> request = (\<lambda>q ps. Inl (OtherError ''boom'')),
       response = (\<lambda>resp. Inr []) \<rparr>"

definition ex_gamma :: EngineInfo where
  "ex_gamma = ex_engine ''gamma''
     \<lparr> request = (\<lambda>q ps. Inr []),
       response = (\<lambda>resp. Inr [[(''title'', JStr ''G1'')], [(''title'', JStr ''G2'')]]) \<rparr>"

definition ex_registry :: EngineRegistry where
  "ex_registry = \<lparr> engines_dir = ''/engines'',
       engines = [(''alpha'', ex_alpha), (''beta'', ex_beta), (''gamma'', ex_gamma)] \<rparr>"

text \<open>A file system with one engines directory holding only files that make no engine,
  and no other path.\<close>

definition ex_fs :: filesystem where
  "ex_fs path =
     (if path = ''/broken''
      then Some [(''crash.py'', ExecFails (OtherError ''invalid syntax'')),
                 (''half.py'', Loaded \<lparr> attr_request = Some (\<lambda>q ps. Inr []), attr_response = None,
                                        attr_categories = None, attr_about = None \<rparr>),
                 (''notes.py'', NoSpec)]
      else None)"

text \<open>The service over that registry, a clock that advances by one per reading, and
  three request lines with the documents they decode to; any other text is malformed.\<close>

definition ex_service_env :: service_env where
  "ex_service_env = \<lparr> net = ex_env, time_at = (\<lambda>n. real n) \<rparr>"

definition ex_service :: EngineService where
  "ex_service = \<lparr> registry = ex_registry, time_calls = 0, effects = [] \<rparr>"

definition ex_ping_line :: ustr where
  \<open>ex_ping_line = ustr_of ''{"jsonrpc": "2.0", "method": "ping", "id": 1}''\<close>

definition ex_notification_line :: ustr where
  \<open>ex_notification_line = ustr_of
     ''{"jsonrpc": "2.0", "method": "disable_engine", "params": {"engine": "beta"}, "id": null}''\<close>

definition ex_search_line :: ustr where
  \<open>ex_search_line = ustr_of
     ''{"jsonrpc": "2.0", "method": "search", "params": {"engine": "nonexistent_engine", "query": "test", "page": 1}, "id": 8}''\<close>

definition ex_documents :: "(ustr \<times> json) list" where
  "ex_documents =
     [(ex_ping_line,
         JDict [(''jsonrpc'', JStr ''2.0''), (''method'', JStr ''ping''), (''id'', JInt 1)]),
      (ex_notification_line,
         JDict [(''jsonrpc'', JStr ''2.0''), (''method'', JStr ''disable_engine''),
                (''params'', JDict [(''engine'', JStr ''beta'')]), (''id'', JNull)]),
      (ex_search_line,
         JDict [(''jsonrpc'', JStr ''2.0''), (''method'', JStr ''search''),
                (''params'', JDict [(''engine'', JStr ''nonexistent_engine''),
                                    (''query'', JStr ''test''), (''page'', JInt 1)]),
                (''id'', JInt 8)])]"

definition ex_rpc_env :: rpc_env where
  "ex_rpc_env =
     \<lparr> loads = (\<lambda>s. case map_of ex_documents s of
                       Some v \<Rightarrow> Inr v
                     | None \<Rightarrow> Inl (JSONDecodeError ''Expecting value: line 1 column 1 (char 0)'')),
       uuid4 = (\<lambda>n. ''uuid4-'' @ replicate (Suc n) (CHR ''x'')),
       format_exc = (\<lambda>e. ''Traceback (most recent call last)''),
       rpc_str_of = (\<lambda>v. ''?'') \<rparr>"

text \<open>
  The Greek rows of the Unicode database: the capitals \<open>U+0391\<close> to \<open>U+03A9\<close>
  (\<open>U+03A2\<close> is not assigned) map to the small letters 32 places on, and capitals and
  small letters are cased. No other row is needed: any other code point is kept as it
  is. The word of the examples is written in capitals and in small letters with a small
  sigma.
\<close>

definition ex_ucd :: ucd where
  "ex_ucd =
     \<lparr> lower_full = (\<lambda>c. if 0x391 \<le> c \<and> c \<le> 0x3A9 \<and> c \<noteq> 0x3A2 then [c + 32] else [c]),
       cased = (\<lambda>c. (0x391 \<le> c \<and> c \<le> 0x3A9 \<and> c \<noteq> 0x3A2) \<or> (0x3B1 \<le> c \<and> c \<le> 0x3C9)),
       case_ignorable = (\<lambda>c. False) \<rparr>"



text \<open>MD5 digests of the key strings the examples hash, as \<open>hashlib\<close> computes them;
  any other text gets the digest of the empty text.\<close>

definition ex_md5 :: "bytes \<Rightarrow> string" where
  "ex_md5 b =
     (if b = ustr_of ''query:rock|engines:all|categories:all''
      then ''0f2cf30b28afb13e07ae5dec642b1a95''
      else if b = ustr_of ''query:rock music|engines:genius,spotify|categories:all''
      then ''d78052d96195550e8f5530c5881921e7''
      else if b = ustr_of ''query:'' @ [0xCE, 0xBF, 0xCE, 0xB4, 0xCE, 0xBF, 0xCF, 0x82]
                  @ ustr_of ''|engines:all|categories:all''
      then ''8b09918dfe2574c1454f707f097148e8''
      else if b = ustr_of ''query:'' @ [0xCE, 0xBF, 0xCE, 0xB4, 0xCE, 0xBF, 0xCF, 0x83]
                  @ ustr_of ''|engines:all|categories:all''
      then ''eb2784ae9e2442b04e1fb32e2ec05411''
      else ''d41d8cd98f00b204e9800998ecf8427e'')"

text \<open>
  A cache over a reachable, empty Redis that keeps at most one result per query, a
  response with two results, and the document \<open>set\<close> stores for it at time 100 with
  an expiry of 60 seconds. The stand-ins for \<open>json.dumps\<close> and \<open>json.loads\<close> write
  that document as \<open>doc\<close> and read it back.
\<close>

definition ex_redis :: redis where
  "ex_redis = \<lparr> up = True, strings = [], cache_stats = [], popular = [] \<rparr>"

definition ex_cache :: CacheService where
  "ex_cache = \<lparr> redis_client = Some ex_redis, default_ttl = 3600, max_results_per_query = 1 \<rparr>"

definition ex_cache_with_stats :: "int \<Rightarrow> int \<Rightarrow> CacheService" where
  "ex_cache_with_stats h m =
     ex_cache\<lparr> redis_client := Some (ex_redis\<lparr> cache_stats := [(''hits'', h), (''misses'', m)] \<rparr>) \<rparr>"

definition ex_results :: pydict where
  "ex_results =
     [(''query'', JStr ''rock''),
      (''results'', JList [JDict [(''title'', JStr ''A1'')], JDict [(''title'', JStr ''G1'')]]),
      (''total_count'', JInt 2)]"

definition ex_cached :: pydict where
  "ex_cached =
     [(''query'', JStr ''rock''),
      (''results'', JList [JDict [(''title'', JStr ''A1'')]]),
      (''total_count'', JInt 2),
      (''truncated'', JBool True),
      (''cached_at'', JStr ''2025-01-01T00:01:40''),
      (''cache_ttl'', JInt 60),
      (''cache_key'', JStr ''search:v1:0f2cf30b28afb13e'')]"

definition ex_cache_env :: cache_env where
  "ex_cache_env =
     \<lparr> json_dumps = (\<lambda>v. if v = JDict ex_cached then ''doc'' else ''other''),
       json_loads = (\<lambda>s. if s = ''doc'' then Inr (JDict ex_cached)
                          else Inl (JSONDecodeError ''Expecting value'')),
       unicode = ex_ucd,
       md5_hexdigest = ex_md5,
       utcnow_isoformat = (\<lambda>t. ''2025-01-01T00:01:40'') \<rparr>"

section \<open>Failure isolation in search\_all\<close>

lemma search_all_loop_results:
  "fst (search_all_loop ev reg query ps es (acc, out)) =
     acc @ concat (map (\<lambda>en. contributed (search ev reg (JStr (name en)) query ps)) es)"
proof (induction es arbitrary: acc out)
  case Nil
  show ?case by simp
next
  case (Cons en es)
  obtain r evs where s: "search ev reg (JStr (name en)) query ps = (r, evs)"
    by (cases "search ev reg (JStr (name en)) query ps")
  show ?case
    by (cases r) (simp_all add: s Cons.IH contributed_def)
qed

lemma search_all_results:
  "fst (search_all ev reg query ps) =
     Inr (concat (map (\<lambda>en. contributed (search ev reg (JStr (name en)) query ps))
                    (get_enabled_engines reg)))"
  by (simp add: search_all_def case_prod_beta search_all_loop_results)

lemmas ex_registry_defs =
  ex_env_def ex_engine_def ex_alpha_def ex_beta_def ex_gamma_def ex_registry_def

lemmas search_defs =
  search_def get_engine_def searxng_search_def direct_search_def Let_def dict_get_def
  tag_results_def dict_set_def quoted_def searxng_url_def py_str_def MinimalResponse_def

lemma ex_enabled: "get_enabled_engines ex_registry = [ex_alpha] @ ex_beta # [ex_gamma]"
  by (simp add: get_enabled_engines_def ex_registry_defs)

lemma ex_search_alpha:
  "search ex_env ex_registry (JStr (name ex_alpha)) (JStr ''rock'') [] =
     (Inr [[(''title'', JStr ''A1''), (''engine'', JStr ''alpha'')]],
      [HttpGet (JStr ''http://localhost:8888/search'')
         [(''q'', JStr ''rock''), (''format'', JStr ''json''), (''engines'', JStr ''alpha''),
          (''pageno'', JInt 1), (''language'', JStr ''all''), (''time_range'', JStr []),
          (''safesearch'', JInt 0)],
       Stderr ''SearXNG not available, using direct engine execution: Connection refused'',
       HttpGet (JStr ''http://alpha.example/'') []])"
  by (simp add: search_defs ex_registry_defs)

lemma ex_search_beta:
  "search ex_env ex_registry (JStr (name ex_beta)) (JStr ''rock'') [] =
     (Inl (OtherError ''boom''),
      [HttpGet (JStr ''http://localhost:8888/search'')
         [(''q'', JStr ''rock''), (''format'', JStr ''json''), (''engines'', JStr ''beta''),
          (''pageno'', JInt 1), (''language'', JStr ''all''), (''time_range'', JStr []),
          (''safesearch'', JInt 0)],
       Stderr ''SearXNG not available, using direct engine execution: Connection refused''])"
  by (simp add: search_defs ex_registry_defs)

lemma ex_search_gamma:
  "search ex_env ex_registry (JStr (name ex_gamma)) (JStr ''rock'') [] =
     (Inr [[(''title'', JStr ''G1''), (''engine'', JStr ''gamma'')],
           [(''title'', JStr ''G2''), (''engine'', JStr ''gamma'')]],
      [HttpGet (JStr ''http://localhost:8888/search'')
         [(''q'', JStr ''rock''), (''format'', JStr ''json''), (''engines'', JStr ''gamma''),
          (''pageno'', JInt 1), (''language'', JStr ''all''), (''time_range'', JStr []),
          (''safesearch'', JInt 0)],
       Stderr ''SearXNG not available, using direct engine execution: Connection refused''])"
  by (simp add: search_defs ex_registry_defs)



section \<open>Discovery\<close>

lemma load_engine_info_malformed:
  "malformed f \<Longrightarrow> load_engine_info dir f = Inr None \<or> (\<exists>e. load_engine_info dir f = Inl e)"
  by (cases f rule: malformed.cases)
     (auto simp: load_engine_info_def split: option.splits)

lemma discover_loop_malformed:
  "list_all malformed fs \<Longrightarrow> fst (discover_loop dir fs (engs, out)) = engs"
proof (induction fs arbitrary: out)
  case Nil
  show ?case by simp
next
  case (Cons f fs)
  then have m: "malformed f" and rest: "list_all malformed fs" by simp_all
  from load_engine_info_malformed [OF m, of dir] show ?case
    by (auto simp: Cons.IH [OF rest])
qed

text \<open>
  C10. Constructing a registry over a directory that does not exist raises
  \<open>ValueError\<close>; over a directory in which every adapter file is malformed it
  succeeds with an empty registry.
\<close>

theorem registry_missing_directory_raises:
  "(fs dir = None \<longrightarrow>
      EngineRegistry_init fs dir = Inl (ValueError (''Engines directory not found: '' @ dir))) \<and>
   (fs dir = Some entries \<and> list_all malformed entries \<longrightarrow>
      (\<exists>out. EngineRegistry_init fs dir = Inr (\<lparr> engines_dir = dir, engines = [] \<rparr>, out)))"
proof (intro conjI impI)
  assume "fs dir = None"
  then show "EngineRegistry_init fs dir = Inl (ValueError (''Engines directory not found: '' @ dir))"
    by (simp add: EngineRegistry_init_def discover_engines_def)
next
  assume a: "fs dir = Some entries \<and> list_all malformed entries"
  let ?py = "filter (\<lambda>f. endswith (fst f) ''.py'') entries"
  from a have "list_all malformed ?py" by (simp add: list_all_iff)
  then have "fst (discover_loop dir ?py ([], [])) = []"
    by (rule discover_loop_malformed)
  then obtain out where "discover_loop dir ?py ([], []) = ([], out)"
    by (cases "discover_loop dir ?py ([], [])") simp
  with a show "\<exists>out. EngineRegistry_init fs dir = Inr (\<lparr> engines_dir = dir, engines = [] \<rparr>, out)"
    by (simp add: EngineRegistry_init_def discover_engines_def)
qed

theorem registry_missing_directory_raises_witness:
  "ex_fs ''/missing'' = None \<and>
   EngineRegistry_init ex_fs ''/missing'' = Inl (ValueError ''Engines directory not found: /missing'') \<and>
   (\<exists>entries. ex_fs ''/broken'' = Some entries \<and> list_all malformed entries) \<and>
   EngineRegistry_init ex_fs ''/broken'' =
     Inr (\<lparr> engines_dir = ''/broken'', engines = [] \<rparr>,
          [Stderr ''Failed to load engine crash.py: invalid syntax''])"
  using registry_missing_directory_raises [of ex_fs "''/missing''"]
    registry_missing_directory_raises [of ex_fs "''/broken''"]
  by (simp add: ex_fs_def EngineRegistry_init_def discover_engines_def endswith_def startswith_def
        load_engine_info_def)

section \<open>The protocol loop on example input\<close>

lemmas ex_service_defs =
  ex_service_env_def ex_service_def ex_rpc_env_def ex_documents_def ex_ping_line_def
  ex_notification_line_def ex_search_line_def ustr_of_def

lemma ex_strip_oops: "strip (ustr_of ''{oops'') = ustr_of ''{oops''"
  by (simp add: strip_def isspace_def ustr_of_def)

lemma ex_loads_oops: "loads (service_rpc_env ex_rpc_env ex_service_env) (ustr_of ''{oops'') = Inl (JSONDecodeError ''Expecting value: line 1 column 1 (char 0)'')"
  by (simp add: service_rpc_env_def ex_service_defs)

lemma ex_strip_lines:
  "strip ex_ping_line = ex_ping_line"
  "strip ex_notification_line = ex_notification_line"
  "strip ex_search_line = ex_search_line"
  by (simp_all add: strip_def isspace_def ustr_of_def ex_ping_line_def ex_notification_line_def
        ex_search_line_def)

lemma ex_lines_nonempty:
  "ex_ping_line \<noteq> []" "ex_notification_line \<noteq> []" "ex_search_line \<noteq> []"
  by (simp_all add: ustr_of_def ex_ping_line_def ex_notification_line_def ex_search_line_def)

lemma ex_loads_lines:
  "loads (service_rpc_env ex_rpc_env ex_service_env) ex_ping_line =
     Inr (JDict [(''jsonrpc'', JStr ''2.0''), (''method'', JStr ''ping''), (''id'', JInt 1)])"
  "loads (service_rpc_env ex_rpc_env ex_service_env) ex_notification_line =
     Inr (JDict [(''jsonrpc'', JStr ''2.0''), (''method'', JStr ''disable_engine''),
                 (''params'', JDict [(''engine'', JStr ''beta'')]), (''id'', JNull)])"
  "loads (service_rpc_env ex_rpc_env ex_service_env) ex_search_line =
     Inr (JDict [(''jsonrpc'', JStr ''2.0''), (''method'', JStr ''search''),
                 (''params'', JDict [(''engine'', JStr ''nonexistent_engine''),
                                     (''query'', JStr ''test''), (''page'', JInt 1)]),
                 (''id'', JInt 8)])"
  by (simp_all add: service_rpc_env_def ex_service_defs)

lemma ex_read_ping:
  "read_request (service_rpc_env ex_rpc_env ex_service_env) n ex_ping_line =
     (Some \<lparr> req_method = JStr ''ping'', req_params = JDict [], req_id = JInt 1 \<rparr>, [], n)"
  by (simp add: read_request_def ex_strip_lines ex_lines_nonempty ex_loads_lines from_dict_def
        JsonRpcRequest_init_def dict_get_def)

lemma ex_read_notification:
  "read_request (service_rpc_env ex_rpc_env ex_service_env) 0 ex_notification_line =
     (Some \<lparr> req_method = JStr ''disable_engine'', req_params = JDict [(''engine'', JStr ''beta'')],
             req_id = JStr ''uuid4-x'' \<rparr>, [], 1)"
  by (simp add: read_request_def ex_strip_lines ex_lines_nonempty ex_loads_lines from_dict_def
        JsonRpcRequest_init_def dict_get_def)
     (simp add: service_rpc_env_def ex_rpc_env_def)

lemma ex_read_search:
  "read_request (service_rpc_env ex_rpc_env ex_service_env) n ex_search_line =
     (Some \<lparr> req_method = JStr ''search'',
             req_params = JDict [(''engine'', JStr ''nonexistent_engine''),
                                 (''query'', JStr ''test''), (''page'', JInt 1)],
             req_id = JInt 8 \<rparr>, [], n)"
  by (simp add: read_request_def ex_strip_lines ex_lines_nonempty ex_loads_lines from_dict_def
        JsonRpcRequest_init_def dict_get_def)



lemma ex_handle_ping:
  "handle_request (service_rpc_env ex_rpc_env ex_service_env) (service_handlers ex_service_env)
     \<lparr> req_method = JStr ''ping'', req_params = JDict [], req_id = JInt 1 \<rparr> ex_service =
   Inr (success (JDict [(''status'', JStr ''ok''), (''timestamp'', JFloat 0),
                        (''engines_count'', JInt 3)]) (JInt 1),
        ex_service\<lparr> time_calls := 1 \<rparr>)"
  by (simp add: handle_request_def service_handlers_def bind_kwargs_def handle_ping_def
        ex_service_env_def ex_service_def ex_registry_def)

lemma ex_handle_notification:
  "handle_request (service_rpc_env ex_rpc_env ex_service_env) (service_handlers ex_service_env)
     \<lparr> req_method = JStr ''disable_engine'', req_params = JDict [(''engine'', JStr ''beta'')],
       req_id = JStr ''uuid4-x'' \<rparr> ex_service =
   Inr (success (JDict [(''success'', JBool True), (''engine'', JStr ''beta''),
                        (''enabled'', JBool False)]) (JStr ''uuid4-x''),
        ex_service\<lparr> registry := ex_registry\<lparr> engines :=
          [(''alpha'', ex_alpha), (''beta'', ex_beta\<lparr> enabled := False \<rparr>), (''gamma'', ex_gamma)] \<rparr> \<rparr>)"
  by (simp add: handle_request_def service_handlers_def bind_kwargs_def dict_get_def
        handle_disable_engine_def set_enabled_def get_engine_def
        ex_service_def ex_registry_def ex_beta_def ex_engine_def)

lemma ex_read_oops:
  "read_request (service_rpc_env ex_rpc_env ex_service_env) n (ustr_of ''{oops'') =
     (None, [to_dict (error_response PARSE_ERROR ''Parse error''
                        (JStr ''Expecting value: line 1 column 1 (char 0)'') JNull)], n)"
  by (simp add: read_request_def ex_strip_oops ex_loads_oops) (simp add: ustr_of_def)

text \<open>
  C3 against the code. The first line is malformed JSON, the second a well-formed
  \<open>ping\<close>. The Parse-Error response (code -32700) is written and no handler runs, but
  the loop then ends: the \<open>ping\<close> line is never read, although the same line sent
  alone is answered.
\<close>

theorem malformed_line_ends_loop:
  "stdout (EngineService_run ex_rpc_env ex_service_env [ustr_of ''{oops'', ex_ping_line] ex_service) =
     [[(''jsonrpc'', JStr ''2.0''), (''id'', JNull),
       (''error'', JDict [(''code'', JInt (- 32700)), (''message'', JStr ''Parse error''),
                          (''data'', JStr ''Expecting value: line 1 column 1 (char 0)'')])]] \<and>
   unread (EngineService_run ex_rpc_env ex_service_env [ustr_of ''{oops'', ex_ping_line] ex_service) =
     [ex_ping_line] \<and>
   raised (EngineService_run ex_rpc_env ex_service_env [ustr_of ''{oops'', ex_ping_line] ex_service) = None \<and>
   stdout (EngineService_run ex_rpc_env ex_service_env [ex_ping_line] ex_service) =
     [[(''jsonrpc'', JStr ''2.0''), (''id'', JInt 1),
       (''result'', JDict [(''status'', JStr ''ok''), (''timestamp'', JFloat 0),
                           (''engines_count'', JInt 3)])]]"
  by (simp add: EngineService_run_def run_def ex_read_oops ex_read_ping ex_handle_ping
        to_dict_def error_response_def PARSE_ERROR_def success_def)

text \<open>
  C4 against the code. A \<open>disable_engine\<close> request whose \<open>id\<close> is \<open>null\<close>: the
  handler runs (\<open>beta\<close> is disabled afterwards), and a response is written all the
  same, under an id the constructor made up.
\<close>

theorem notification_is_answered:
  "stdout (EngineService_run ex_rpc_env ex_service_env [ex_notification_line] ex_service) =
     [[(''jsonrpc'', JStr ''2.0''), (''id'', JStr ''uuid4-x''),
       (''result'', JDict [(''success'', JBool True), (''engine'', JStr ''beta''),
                           (''enabled'', JBool False)])]] \<and>
   map (\<lambda>kv. (fst kv, enabled (snd kv)))
     (engines (registry (final
        (EngineService_run ex_rpc_env ex_service_env [ex_notification_line] ex_service)))) =
     [(''alpha'', True), (''beta'', False), (''gamma'', True)]"
  by (simp add: EngineService_run_def run_def ex_read_notification ex_handle_notification
        success_def to_dict_def)
     (simp add: ex_alpha_def ex_gamma_def ex_engine_def)

lemma ex_handle_search:
  "handle_request (service_rpc_env ex_rpc_env ex_service_env) (service_handlers ex_service_env)
     \<lparr> req_method = JStr ''search'',
       req_params = JDict [(''engine'', JStr ''nonexistent_engine''),
                           (''query'', JStr ''test''), (''page'', JInt 1)],
       req_id = JInt 8 \<rparr> ex_service =
   Inr (success (JDict [(''success'', JBool False),
                        (''engine'', JStr ''nonexistent_engine''),
                        (''query'', JStr ''test''),
                        (''error'', JStr (''Engine '' @ quoted ''nonexistent_engine''
                                          @ '' not found or disabled'')),
                        (''response_time'', JFloat 1)]) (JInt 8),
        ex_service\<lparr> time_calls := 2 \<rparr>)"
  by (simp add: handle_request_def service_handlers_def bind_kwargs_def dict_get_def
        handle_search_def search_def get_engine_def py_str_def
        ex_service_env_def ex_service_def ex_registry_def numeral_2_eq_2)

text \<open>
  C5 against the code. \<open>search\<close> for an engine the registry does not have is answered
  with a success envelope: a \<open>result\<close> member whose \<open>success\<close> entry is false, and
  no \<open>error\<close> member, so no error code at all.
\<close>

theorem search_unknown_engine_success_envelope:
  "stdout (EngineService_run ex_rpc_env ex_service_env [ex_search_line] ex_service) =
     [[(''jsonrpc'', JStr ''2.0''), (''id'', JInt 8),
       (''result'', JDict [(''success'', JBool False),
                           (''engine'', JStr ''nonexistent_engine''),
                           (''query'', JStr ''test''),
                           (''error'', JStr (''Engine '' @ quoted ''nonexistent_engine''
                                             @ '' not found or disabled'')),
                           (''response_time'', JFloat 1)])]]"
  by (simp add: EngineService_run_def run_def ex_read_search ex_handle_search
        success_def to_dict_def)

section \<open>The response of search\_all\<close>

lemma tag_results_tagged:
  "r \<in> set (tag_results nm rs) \<Longrightarrow> map_of r ''engine'' = Some nm"
  by (auto simp: tag_results_def dict_set_def update_conv')

lemma tag_json_results_tagged:
  "tag_json_results nm v = Inr rs \<Longrightarrow> r \<in> set rs \<Longrightarrow> map_of r ''engine'' = Some nm"
  by (auto simp: tag_json_results_def split: json.splits option.splits if_splits
        dest: tag_results_tagged)

lemma searxng_search_tagged:
  "searxng_search ev nm sp = Inr rs \<Longrightarrow> r \<in> set rs \<Longrightarrow> map_of r ''engine'' = Some nm"
  by (auto simp: searxng_search_def split: sum.splits json.splits
        dest: tag_json_results_tagged)

lemma direct_search_tagged:
  "fst (direct_search ev m nm query ps) = Inr rs \<Longrightarrow> r \<in> set rs \<Longrightarrow> map_of r ''engine'' = Some nm"
  by (auto simp: direct_search_def Let_def split: sum.splits option.splits
        dest: tag_results_tagged)

lemma search_tagged:
  assumes "fst (search ev reg nm query ps) = Inr rs" and "r \<in> set rs"
  shows "map_of r ''engine'' = Some nm"
  using assms
  by (auto simp: search_def Let_def case_prod_beta
        split: sum.splits option.splits if_splits
        dest: searxng_search_tagged direct_search_tagged)

lemma contributed_tagged:
  "r \<in> set (contributed (search ev reg nm query ps)) \<Longrightarrow> map_of r ''engine'' = Some nm"
  by (cases "fst (search ev reg nm query ps)")
     (auto simp: contributed_def dest: search_tagged)

lemma group_loop_keys:
  assumes "\<forall>r \<in> set rs. \<exists>s. map_of r ''engine'' = Some (JStr s)"
  shows "\<exists>g. group_loop sf rs acc = Inr g \<and> set (map fst g) = set (map fst acc) \<union> tags rs"
  using assms
proof (induction rs arbitrary: acc)
  case Nil
  show ?case by (simp add: tags_def)
next
  case (Cons r rs)
  then obtain s where s: "map_of r ''engine'' = Some (JStr s)" by auto
  let ?acc = "AList.update s ((case map_of acc s of Some l \<Rightarrow> l | None \<Rightarrow> []) @ [r]) acc"
  from Cons.prems have "\<forall>r \<in> set rs. \<exists>s. map_of r ''engine'' = Some (JStr s)" by simp
  from Cons.IH [OF this, of ?acc]
  obtain g where g: "group_loop sf rs ?acc = Inr g"
    and k: "set (map fst g) = set (map fst ?acc) \<union> tags rs" by blast
  have step: "group_loop sf (r # rs) acc = group_loop sf rs ?acc"
    by (simp add: dict_get_def s)
  have "set (map fst ?acc) = insert s (set (map fst acc))"
    by (simp add: dom_update)
  moreover have "tags (r # rs) = insert s (tags rs)"
    using s by (auto simp: tags_def)
  ultimately show ?case using g k step by auto
qed


lemma search_all_result_tags:
  "tags (concat (map (\<lambda>en. contributed (search ev reg (JStr (name en)) query ps)) es)) =
     set (map name (filter (\<lambda>en. contributed (search ev reg (JStr (name en)) query ps) \<noteq> []) es))"
proof -
  have "s \<in> tags (concat (map (\<lambda>en. contributed (search ev reg (JStr (name en)) query ps)) es)) \<longleftrightarrow>
        s \<in> set (map name (filter (\<lambda>en. contributed (search ev reg (JStr (name en)) query ps) \<noteq> []) es))"
    for s
  proof
    assume "s \<in> tags (concat (map (\<lambda>en. contributed (search ev reg (JStr (name en)) query ps)) es))"
    then obtain r en where en: "en \<in> set es"
      and r: "r \<in> set (contributed (search ev reg (JStr (name en)) query ps))"
      and t: "map_of r ''engine'' = Some (JStr s)"
      by (auto simp: tags_def)
    from contributed_tagged [OF r] t have "name en = s" by simp
    moreover from r have "contributed (search ev reg (JStr (name en)) query ps) \<noteq> []" by auto
    ultimately show "s \<in> set (map name (filter (\<lambda>en. contributed (search ev reg (JStr (name en)) query ps) \<noteq> []) es))"
      using en by auto
  next
    assume "s \<in> set (map name (filter (\<lambda>en. contributed (search ev reg (JStr (name en)) query ps) \<noteq> []) es))"
    then obtain en where en: "en \<in> set es" and s: "name en = s"
      and ne: "contributed (search ev reg (JStr (name en)) query ps) \<noteq> []"
      by auto
    from ne obtain r where r: "r \<in> set (contributed (search ev reg (JStr (name en)) query ps))"
      by (cases "contributed (search ev reg (JStr (name en)) query ps)") auto
    from contributed_tagged [OF r] s have "map_of r ''engine'' = Some (JStr s)" by simp
    with en r show "s \<in> tags (concat (map (\<lambda>en. contributed (search ev reg (JStr (name en)) query ps)) es))"
      by (auto simp: tags_def)
  qed
  then show ?thesis by blast
qed

lemma search_all_results_tagged:
  "\<forall>r \<in> set (concat (map (\<lambda>en. contributed (search ev reg (JStr (name en)) query ps)) es)).
     \<exists>s. map_of r ''engine'' = Some (JStr s)"
  by (auto dest: contributed_tagged)

text \<open>
  C2, as the code has it. The response of \<open>search_all\<close> is an object with exactly the
  members \<open>success\<close>, \<open>query\<close>, \<open>results\<close>, \<open>results_by_engine\<close>,
  \<open>total_count\<close>, \<open>engine_count\<close> and \<open>response_time\<close>. It has no per-engine
  status: \<open>results_by_engine\<close> has an entry for exactly the enabled engines that
  contributed at least one result, and none for an engine that failed.
\<close>

theorem handle_search_all_response_shape:
  "response_keys (fst (handle_search_all E query ps st)) =
     [''success'', ''query'', ''results'', ''results_by_engine'', ''total_count'',
      ''engine_count'', ''response_time''] \<and>
   (\<exists>by_engine.
      json_member (fst (handle_search_all E query ps st)) ''results_by_engine'' = Some (JDict by_engine) \<and>
      set (map fst by_engine) =
        set (map name (filter (\<lambda>en. contributed (search (net E) (registry st) (JStr (name en)) query ps) \<noteq> [])
                         (get_enabled_engines (registry st)))))"
proof -
  let ?rs = "concat (map (\<lambda>en. contributed (search (net E) (registry st) (JStr (name en)) query ps))
                       (get_enabled_engines (registry st)))"
  obtain r evs where sa: "search_all (net E) (registry st) query ps = (r, evs)"
    by (cases "search_all (net E) (registry st) query ps")
  with search_all_results [of "net E" "registry st" query ps] have r: "r = Inr ?rs" by simp
  from group_loop_keys [OF search_all_results_tagged, of "str_of (net E)" "net E" "registry st" query ps
      "get_enabled_engines (registry st)" "[]"]
  obtain g where g: "group_loop (str_of (net E)) ?rs [] = Inr g"
    and k: "set (map fst g) = tags ?rs" by auto
  have keys: "set (map fst (map (\<lambda>kv. (fst kv, JList (map JDict (snd kv)))) g)) = set (map fst g)"
    by (simp add: image_image)
  show ?thesis
    using k keys
    by (simp add: handle_search_all_def Let_def sa r g response_keys_def json_member_def
          search_all_result_tags image_image)
qed


lemma ex_service_parts:
  "net ex_service_env = ex_env" "registry ex_service = ex_registry"
  "time_calls ex_service = 0" "time_at ex_service_env n = real n"
  by (simp_all add: ex_service_env_def ex_service_def)

lemma ex_contributed:
  "contributed (search ex_env ex_registry (JStr (name ex_alpha)) (JStr ''rock'') []) =
     [[(''title'', JStr ''A1''), (''engine'', JStr ''alpha'')]]"
  "contributed (search ex_env ex_registry (JStr (name ex_beta)) (JStr ''rock'') []) = []"
  "contributed (search ex_env ex_registry (JStr (name ex_gamma)) (JStr ''rock'') []) =
     [[(''title'', JStr ''G1''), (''engine'', JStr ''gamma'')],
      [(''title'', JStr ''G2''), (''engine'', JStr ''gamma'')]]"
  by (simp_all add: contributed_def ex_search_alpha ex_search_beta ex_search_gamma)

lemma ex_names: "name ex_alpha = ''alpha''" "name ex_beta = ''beta''" "name ex_gamma = ''gamma''"
  by (simp_all add: ex_alpha_def ex_beta_def ex_gamma_def ex_engine_def)

lemma ex_search_all_results:
  "fst (search_all ex_env ex_registry (JStr ''rock'') []) =
     Inr [[(''title'', JStr ''A1''), (''engine'', JStr ''alpha'')],
          [(''title'', JStr ''G1''), (''engine'', JStr ''gamma'')],
          [(''title'', JStr ''G2''), (''engine'', JStr ''gamma'')]]"
  by (simp add: search_all_results ex_enabled ex_contributed)

lemma ex_handle_search_all:
  "fst (handle_search_all ex_service_env (JStr ''rock'') [] ex_service) =
     JDict [(''success'', JBool True),
            (''query'', JStr ''rock''),
            (''results'', JList [JDict [(''title'', JStr ''A1''), (''engine'', JStr ''alpha'')],
                                 JDict [(''title'', JStr ''G1''), (''engine'', JStr ''gamma'')],
                                 JDict [(''title'', JStr ''G2''), (''engine'', JStr ''gamma'')]]),
            (''results_by_engine'',
               JDict [(''alpha'', JList [JDict [(''title'', JStr ''A1''), (''engine'', JStr ''alpha'')]]),
                      (''gamma'', JList [JDict [(''title'', JStr ''G1''), (''engine'', JStr ''gamma'')],
                                         JDict [(''title'', JStr ''G2''), (''engine'', JStr ''gamma'')]])]),
            (''total_count'', JInt 3),
            (''engine_count'', JInt 2),
            (''response_time'', JFloat 1)]"
proof -
  obtain evs where "search_all ex_env ex_registry (JStr ''rock'') [] =
     (Inr [[(''title'', JStr ''A1''), (''engine'', JStr ''alpha'')],
           [(''title'', JStr ''G1''), (''engine'', JStr ''gamma'')],
           [(''title'', JStr ''G2''), (''engine'', JStr ''gamma'')]], evs)"
    using ex_search_all_results by (cases "search_all ex_env ex_registry (JStr ''rock'') []") simp
  then show ?thesis
    by (simp add: handle_search_all_def Let_def ex_service_parts dict_get_def)
qed

theorem handle_search_all_response_shape_witness:
  "response_keys (fst (handle_search_all ex_service_env (JStr ''rock'') [] ex_service)) =
     [''success'', ''query'', ''results'', ''results_by_engine'', ''total_count'',
      ''engine_count'', ''response_time''] \<and>
   (\<exists>by_engine.
      json_member (fst (handle_search_all ex_service_env (JStr ''rock'') [] ex_service))
        ''results_by_engine'' = Some (JDict by_engine) \<and>
      set (map fst by_engine) = {''alpha'', ''gamma''})"
proof -
  have "set (map name (filter (\<lambda>en. contributed (search ex_env ex_registry (JStr (name en)) (JStr ''rock'') []) \<noteq> [])
                         (get_enabled_engines ex_registry))) = {''alpha'', ''gamma''}"
    by (simp add: ex_enabled ex_contributed) (simp add: ex_names)
  with handle_search_all_response_shape [of ex_service_env "JStr ''rock''" "[]" ex_service]
  show ?thesis by (simp add: ex_service_parts)
qed

text \<open>
  C2 as stated fails at the example service: the response has no \<open>perEngineStatus\<close>
  member, and the engine that failed, \<open>beta\<close>, appears nowhere in it.
\<close>

theorem per_engine_status_counterexample:
  "json_member (fst (handle_search_all ex_service_env (JStr ''rock'') [] ex_service))
     ''perEngineStatus'' = None \<and>
   response_keys (fst (handle_search_all ex_service_env (JStr ''rock'') [] ex_service)) =
     [''success'', ''query'', ''results'', ''results_by_engine'', ''total_count'',
      ''engine_count'', ''response_time''] \<and>
   json_member (fst (handle_search_all ex_service_env (JStr ''rock'') [] ex_service))
     ''results_by_engine'' =
     Some (JDict [(''alpha'', JList [JDict [(''title'', JStr ''A1''), (''engine'', JStr ''alpha'')]]),
                  (''gamma'', JList [JDict [(''title'', JStr ''G1''), (''engine'', JStr ''gamma'')],
                                     JDict [(''title'', JStr ''G2''), (''engine'', JStr ''gamma'')]])])"
  by (simp add: ex_handle_search_all json_member_def response_keys_def)

section \<open>Cache keys\<close>























lemma ex_lower_rock: "lower ex_ucd ([0x20, 0xA0] @ ustr_of ''Rock Music'' @ [0x3000]) =
    [0x20, 0xA0] @ ustr_of ''rock music'' @ [0x3000]"
  by (simp add: lower_def ustr_of_def to_lower_full_def isspace_def)



lemma ex_sort_names: "sort [ustr_of ''spotify'', ustr_of ''genius''] = [ustr_of ''genius'', ustr_of ''spotify'']"
  "sort [ustr_of ''genius'', ustr_of ''spotify''] = [ustr_of ''genius'', ustr_of ''spotify'']"
  by (simp_all add: ustr_of_def)





section \<open>Hit rate\<close>

lemma round_half_even_close: "\<bar>of_int (round_half_even x) - x\<bar> \<le> 1 / 2"
proof -
  have "of_int \<lfloor>x\<rfloor> \<le> x" "x < of_int \<lfloor>x\<rfloor> + 1" by linarith+
  then show ?thesis by (auto simp: round_half_even_def Let_def)
qed

lemma round_half_even_range:
  assumes "0 \<le> x" and "x \<le> of_int n"
  shows "0 \<le> round_half_even x \<and> round_half_even x \<le> n"
proof -
  have f: "of_int \<lfloor>x\<rfloor> \<le> x" "x < of_int \<lfloor>x\<rfloor> + 1" by linarith+
  from assms(1) have lo: "0 \<le> \<lfloor>x\<rfloor>" by simp
  from assms(2) have hi: "\<lfloor>x\<rfloor> \<le> n" by (simp add: floor_le_iff)
  have up: "\<lfloor>x\<rfloor> + 1 \<le> n" if "1 / 2 \<le> x - of_int \<lfloor>x\<rfloor>"
  proof -
    from that have "of_int \<lfloor>x\<rfloor> < x" by linarith
    with assms(2) have "(of_int \<lfloor>x\<rfloor> :: real) < of_int n" by linarith
    then show ?thesis by simp
  qed
  show ?thesis
    using lo hi up by (auto simp: round_half_even_def Let_def)
qed

lemma calculate_hit_rate_percentage:
  assumes "hits = counter stats ''hits''" and "misses = counter stats ''misses''"
    and "0 \<le> hits" and "0 \<le> misses"
  shows "if hits + misses = 0 then calculate_hit_rate stats = 0
         else \<bar>calculate_hit_rate stats - 100 * of_int hits / of_int (hits + misses)\<bar> \<le> 1 / 200 \<and>
              0 \<le> calculate_hit_rate stats \<and> calculate_hit_rate stats \<le> 100 \<and>
              (\<exists>k::int. calculate_hit_rate stats = of_int k / 100)"
proof (cases "hits + misses = 0")
  case True
  then show ?thesis using assms(1,2) by (simp add: calculate_hit_rate_def)
next
  case False
  define q :: real where "q = of_int hits / of_int (hits + misses)"
  define p :: real where "p = q * 100"
  from False assms(3,4) have pos: "0 < (of_int (hits + misses) :: real)" by simp
  from assms(3) pos have q0: "0 \<le> q" by (simp add: q_def)
  from assms(4) pos have q1: "q \<le> 1" by (simp add: q_def)
  from q0 have p0: "0 \<le> p" unfolding p_def by linarith
  from q1 have p100: "p \<le> 100" unfolding p_def by linarith
  have rate: "calculate_hit_rate stats = of_int (round_half_even (p * 100)) / 100"
    using False assms(1,2) by (simp add: calculate_hit_rate_def py_round_def p_def q_def Let_def)
  from p0 p100 have "0 \<le> p * 100" "p * 100 \<le> of_int 10000" by simp_all
  from round_half_even_range [OF this]
  have r: "0 \<le> round_half_even (p * 100)" "round_half_even (p * 100) \<le> 10000" by simp_all
  from round_half_even_close [of "p * 100"]
  have c: "\<bar>of_int (round_half_even (p * 100)) / 100 - p\<bar> \<le> 1 / 200" by linarith
  have pe: "100 * of_int hits / of_int (hits + misses) = p" by (simp add: p_def q_def)
  from r have b: "0 \<le> (of_int (round_half_even (p * 100)) :: real) / 100"
    "(of_int (round_half_even (p * 100)) :: real) / 100 \<le> 100" by simp_all
  have "\<bar>calculate_hit_rate stats - 100 * of_int hits / of_int (hits + misses)\<bar> \<le> 1 / 200"
    unfolding pe rate by (rule c)
  moreover have "0 \<le> calculate_hit_rate stats" "calculate_hit_rate stats \<le> 100"
    unfolding rate by (rule b)+
  moreover have "\<exists>k::int. calculate_hit_rate stats = of_int k / 100"
    unfolding rate by blast
  ultimately show ?thesis using False by simp
qed

lemma get_stats_hit_rate:
  "redis_client cs = Some r \<Longrightarrow> up r \<Longrightarrow>
     map_of (get_stats now cs) ''hit_rate'' = Some (JFloat (calculate_hit_rate (cache_stats r)))"
  by (simp add: get_stats_def redis_zrevrange_top10_def redis_keys_search_def Let_def)

text \<open>
  C8, as the code has it. The hit rate that \<open>get_stats\<close> reports is a percentage
  rounded to two decimals: zero when no hit and no miss is recorded, and otherwise
  a multiple of 0.01 between 0 and 100 within 0.005 of \<open>100 * hits / (hits + misses)\<close>.
\<close>

theorem hit_rate_is_rounded_percentage:
  assumes "redis_client cs = Some r" and "up r"
    and "hits = counter (cache_stats r) ''hits''" and "misses = counter (cache_stats r) ''misses''"
    and "0 \<le> hits" and "0 \<le> misses"
  shows "\<exists>rate. map_of (get_stats now cs) ''hit_rate'' = Some (JFloat rate) \<and>
           (if hits + misses = 0 then rate = 0
            else \<bar>rate - 100 * of_int hits / of_int (hits + misses)\<bar> \<le> 1 / 200 \<and>
                 0 \<le> rate \<and> rate \<le> 100 \<and> (\<exists>k::int. rate = of_int k / 100))"
  using get_stats_hit_rate [OF assms(1,2)] calculate_hit_rate_percentage [OF assms(3-6)]
  by auto

lemma ex_hit_rate_third: "calculate_hit_rate [(''hits'', 1), (''misses'', 2)] = 3333 / 100"
proof -
  have "\<lfloor>(10000::real) / 3\<rfloor> = 3333" by simp
  then show ?thesis
    by (simp add: calculate_hit_rate_def counter_def py_round_def round_half_even_def Let_def)
qed

theorem hit_rate_is_rounded_percentage_witness:
  "redis_client (ex_cache_with_stats 1 2) =
     Some (ex_redis\<lparr> cache_stats := [(''hits'', 1), (''misses'', 2)] \<rparr>) \<and>
   up (ex_redis\<lparr> cache_stats := [(''hits'', 1), (''misses'', 2)] \<rparr>) \<and>
   (1 :: int) = counter (cache_stats (ex_redis\<lparr> cache_stats := [(''hits'', 1), (''misses'', 2)] \<rparr>)) ''hits'' \<and>
   (2 :: int) = counter (cache_stats (ex_redis\<lparr> cache_stats := [(''hits'', 1), (''misses'', 2)] \<rparr>)) ''misses'' \<and>
   (\<exists>rate. map_of (get_stats 0 (ex_cache_with_stats 1 2)) ''hit_rate'' = Some (JFloat rate) \<and>
      \<bar>rate - 100 * 1 / 3\<bar> \<le> 1 / 200 \<and> 0 \<le> rate \<and> rate \<le> 100 \<and>
      (\<exists>k::int. rate = of_int k / 100))"
proof -
  let ?r = "ex_redis\<lparr> cache_stats := [(''hits'', 1), (''misses'', 2)] \<rparr>"
  have h1: "redis_client (ex_cache_with_stats 1 2) = Some ?r"
    by (simp add: ex_cache_with_stats_def)
  have h2: "up ?r" by (simp add: ex_redis_def)
  have h3: "(1 :: int) = counter (cache_stats ?r) ''hits''" by (simp add: counter_def)
  have h4: "(2 :: int) = counter (cache_stats ?r) ''misses''" by (simp add: counter_def)
  have h5: "(0 :: int) \<le> 1" and h6: "(0 :: int) \<le> 2" by simp_all
  from hit_rate_is_rounded_percentage [OF h1 h2 h3 h4 h5 h6, of 0] h1 h2 h3 h4
  show ?thesis by simp
qed

text \<open>
  C8 as stated fails with one hit and one miss recorded: the reported hit rate is 50,
  not \<open>hits / (hits + misses) = 1 / 2\<close>.
\<close>

theorem hit_rate_counterexample:
  "map_of (get_stats 0 (ex_cache_with_stats 1 1)) ''hit_rate'' = Some (JFloat 50) \<and>
   (50 :: real) \<noteq> 1 / (1 + 1)"
  by (simp add: get_stats_hit_rate [of _ "ex_redis\<lparr> cache_stats := [(''hits'', 1), (''misses'', 1)] \<rparr>"]
        ex_cache_with_stats_def ex_cache_def ex_redis_def calculate_hit_rate_def counter_def
        py_round_def round_half_even_def Let_def)

section \<open>Cache round trip\<close>

lemma limit_results_list:
  assumes "map_of resp ''results'' = Some (JList xs)" and "0 \<le> mx"
  shows "limit_results mx resp =
           Inr (if mx < int (length xs)
                then dict_set (dict_set resp ''results'' (JList (take (nat mx) xs)))
                       ''truncated'' (JBool True)
                else resp)"
  using assms by (simp add: limit_results_def py_len_def slice_to_def)

lemma CacheService_set_stores:
  assumes "redis_client cs = Some r" and "up r"
    and "limit_results (max_results_per_query cs) resp = Inr capped"
    and "ttl = (case ttl_arg of Some t \<Rightarrow> if t \<noteq> 0 then t else default_ttl cs | None \<Rightarrow> default_ttl cs)"
    and "0 < ttl"
    and "generate_cache_key E query engs cats = Inr key"
    and "encode query = Inr member"
  shows "CacheService_set E now cs query resp engs cats ttl_arg =
           Inr (True, with_redis cs
              (r\<lparr> strings := AList.update key
                     (json_dumps E (JDict (cache_metadata E now ttl key capped)), now + ttl) (strings r),
                   cache_stats := AList.update ''sets'' (counter (cache_stats r) ''sets'' + 1) (cache_stats r),
                   popular := AList.update member (counter (popular r) member + 1) (popular r) \<rparr>))"
  using assms
  by (simp add: CacheService_set_def Let_def redis_setex_def redis_hincrby_def redis_zincrby_def)

lemma CacheService_get_hit:
  assumes "redis_client cs = Some r" and "up r"
    and "generate_cache_key E query engs cats = Inr key"
    and "map_of (strings r) key = Some (txt, expires)"
    and "t < expires" and "txt \<noteq> []" and "json_loads E txt = Inr v"
  shows "\<exists>cs'. CacheService_get E t cs query engs cats = Inr (Some v, cs')"
  using assms
  by (simp add: CacheService_get_def Let_def redis_get_def redis_hincrby_def)

text \<open>
  C6, as the code has it. Take a response whose \<open>results\<close> entry is a list, a cap that
  is not negative, a positive expiry, and a query that can be encoded, on a reachable
  Redis, and let \<open>json.loads\<close> read back the stored document as \<open>json.dumps\<close> wrote
  it. Then \<open>set\<close> succeeds, and \<open>get\<close> for the same request before the expiry returns
  the stored document \<open>doc\<close>: the response with its \<open>results\<close> cut to the first
  \<open>max_results_per_query\<close> and \<open>truncated\<close> set when the list was longer, and with
  \<open>cached_at\<close> (the time of \<open>set\<close>), \<open>cache_ttl\<close> (the expiry) and \<open>cache_key\<close>
  (the derived key) written into it. Every other entry is the response's.
\<close>

theorem cache_round_trip_with_metadata:
  assumes "redis_client cs = Some r" and "up r"
    and "map_of resp ''results'' = Some (JList xs)"
    and "0 \<le> max_results_per_query cs"
    and "ttl = (case ttl_arg of Some t \<Rightarrow> if t \<noteq> 0 then t else default_ttl cs | None \<Rightarrow> default_ttl cs)"
    and "0 < ttl"
    and "generate_cache_key E query engs cats = Inr key"
    and "encode query = Inr member"
    and "capped = (if max_results_per_query cs < int (length xs)
                   then dict_set (dict_set resp ''results''
                          (JList (take (nat (max_results_per_query cs)) xs))) ''truncated'' (JBool True)
                   else resp)"
    and "doc = dict_set (dict_set (dict_set capped
                 ''cached_at'' (JStr (utcnow_isoformat E now)))
                 ''cache_ttl'' (JInt ttl))
                 ''cache_key'' (JStr key)"
    and "json_dumps E (JDict doc) \<noteq> []"
    and "json_loads E (json_dumps E (JDict doc)) = Inr (JDict doc)"
    and "CacheService_set E now cs query resp engs cats ttl_arg = Inr (ok, cs')"
    and "now \<le> t" and "t < now + ttl"
  shows "ok \<and>
         (\<exists>cs''. CacheService_get E t cs' query engs cats = Inr (Some (JDict doc), cs'')) \<and>
         map_of doc ''cached_at'' = Some (JStr (utcnow_isoformat E now)) \<and>
         map_of doc ''cache_ttl'' = Some (JInt ttl) \<and>
         map_of doc ''cache_key'' = Some (JStr key) \<and>
         map_of doc ''results'' =
           Some (JList (if max_results_per_query cs < int (length xs)
                        then take (nat (max_results_per_query cs)) xs else xs)) \<and>
         map_of doc ''truncated'' =
           (if max_results_per_query cs < int (length xs) then Some (JBool True)
            else map_of resp ''truncated'') \<and>
         filter (\<lambda>kv. fst kv \<notin> {''results'', ''truncated'', ''cached_at'', ''cache_ttl'', ''cache_key''}) doc =
         filter (\<lambda>kv. fst kv \<notin> {''results'', ''truncated'', ''cached_at'', ''cache_ttl'', ''cache_key''}) resp"
proof -
  have lim: "limit_results (max_results_per_query cs) resp = Inr capped"
    unfolding assms(9) using assms(3,4) by (rule limit_results_list)
  have meta: "cache_metadata E now ttl key capped = doc"
    by (simp add: cache_metadata_def assms(10))
  define r' where "r' = r\<lparr> strings := AList.update key (json_dumps E (JDict doc), now + ttl) (strings r),
      cache_stats := AList.update ''sets'' (counter (cache_stats r) ''sets'' + 1) (cache_stats r),
      popular := AList.update member (counter (popular r) member + 1) (popular r) \<rparr>"
  from CacheService_set_stores [OF assms(1,2) lim assms(5,6,7,8), of now] assms(13)
  have ok: "ok" and cs': "cs' = with_redis cs r'" by (simp_all add: r'_def meta)
  have rc: "redis_client cs' = Some r'" by (simp add: cs' with_redis_def)
  from assms(2) have up: "up r'" by (simp add: r'_def)
  have stored: "map_of (strings r') key = Some (json_dumps E (JDict doc), now + ttl)"
    by (simp add: r'_def update_conv')
  from CacheService_get_hit [OF rc up assms(7) stored assms(15) assms(11) assms(12)]
  have hit: "\<exists>cs''. CacheService_get E t cs' query engs cats = Inr (Some (JDict doc), cs'')" .
  have m: "map_of doc ''cached_at'' = Some (JStr (utcnow_isoformat E now))"
    "map_of doc ''cache_ttl'' = Some (JInt ttl)" "map_of doc ''cache_key'' = Some (JStr key)"
    by (simp_all add: assms(10) dict_set_def update_conv')
  have res: "map_of doc ''results'' =
      Some (JList (if max_results_per_query cs < int (length xs)
                   then take (nat (max_results_per_query cs)) xs else xs))"
    using assms(3) by (simp add: assms(9,10) dict_set_def update_conv')
  have tr: "map_of doc ''truncated'' =
      (if max_results_per_query cs < int (length xs) then Some (JBool True)
       else map_of resp ''truncated'')"
    by (simp add: assms(9,10) dict_set_def update_conv')
  define K :: "string set" where
    "K = {''results'', ''truncated'', ''cached_at'', ''cache_ttl'', ''cache_key''}"
  have k: "''results'' \<in> K" "''truncated'' \<in> K" "''cached_at'' \<in> K" "''cache_ttl'' \<in> K"
    "''cache_key'' \<in> K" by (simp_all add: K_def)
  have upd: "filter (\<lambda>kv. fst kv \<notin> K) (AList.update a v ps) = filter (\<lambda>kv. fst kv \<notin> K) ps"
    if "a \<in> K" for a v and ps :: pydict
    using that by (induction ps) auto
  have "filter (\<lambda>kv. fst kv \<notin> K) doc = filter (\<lambda>kv. fst kv \<notin> K) resp"
    by (simp add: assms(9,10) dict_set_def upd k)
  then have kept: "filter (\<lambda>kv. fst kv \<notin> {''results'', ''truncated'', ''cached_at'', ''cache_ttl'', ''cache_key''}) doc =
      filter (\<lambda>kv. fst kv \<notin> {''results'', ''truncated'', ''cached_at'', ''cache_ttl'', ''cache_key''}) resp"
    by (simp only: K_def)
  from ok hit m res tr kept show ?thesis by blast
qed


lemma ex_cache_key:
  "generate_cache_key ex_cache_env (ustr_of ''rock'') None None = Inr ''search:v1:0f2cf30b28afb13e''"
proof -
  have q: "strip (lower (unicode ex_cache_env) (ustr_of ''rock'')) = ustr_of ''rock''"
    by (simp add: lower_def strip_def ustr_of_def to_lower_full_def isspace_def)
  show ?thesis
    unfolding generate_cache_key_def Let_def q
    by (simp add: names_str_def ustr_of_def utf8_def ex_cache_env_def ex_md5_def)
qed

lemma ex_encode_rock: "encode (ustr_of ''rock'') = Inr (ustr_of ''rock'')"
  by (simp add: ustr_of_def utf8_def)

lemma ex_cache_parts:
  "redis_client ex_cache = Some ex_redis" "up ex_redis" "default_ttl ex_cache = 3600"
  "max_results_per_query ex_cache = 1"
  "json_dumps ex_cache_env (JDict ex_cached) = ''doc''"
  "json_loads ex_cache_env ''doc'' = Inr (JDict ex_cached)"
  "utcnow_isoformat ex_cache_env t = ''2025-01-01T00:01:40''"
  by (simp_all add: ex_cache_def ex_redis_def ex_cache_env_def)

lemma ex_results_entry:
  "map_of ex_results ''results'' =
     Some (JList [JDict [(''title'', JStr ''A1'')], JDict [(''title'', JStr ''G1'')]])"
  by (simp add: ex_results_def)

lemma ex_cached_doc:
  "dict_set (dict_set (dict_set
     (if max_results_per_query ex_cache
           < int (length [JDict [(''title'', JStr ''A1'')], JDict [(''title'', JStr ''G1'')]])
      then dict_set (dict_set ex_results ''results''
             (JList (take (nat (max_results_per_query ex_cache))
                [JDict [(''title'', JStr ''A1'')], JDict [(''title'', JStr ''G1'')]])))
             ''truncated'' (JBool True)
      else ex_results)
     ''cached_at'' (JStr (utcnow_isoformat ex_cache_env 100)))
     ''cache_ttl'' (JInt 60))
     ''cache_key'' (JStr ''search:v1:0f2cf30b28afb13e'') = ex_cached"
  by (simp add: ex_cache_parts dict_set_def ex_results_def ex_cached_def)

lemma ex_set:
  "CacheService_set ex_cache_env 100 ex_cache (ustr_of ''rock'') ex_results None None (Some 60) =
     Inr (True, with_redis ex_cache
        (ex_redis\<lparr> strings := [(''search:v1:0f2cf30b28afb13e'', ''doc'', 160)],
                   cache_stats := [(''sets'', 1)], popular := [(ustr_of ''rock'', 1)] \<rparr>))"
proof -
  have lim: "limit_results 1 ex_results =
      Inr [(''query'', JStr ''rock''), (''results'', JList [JDict [(''title'', JStr ''A1'')]]),
           (''total_count'', JInt 2), (''truncated'', JBool True)]"
    by (simp add: limit_results_def py_len_def slice_to_def dict_set_def ex_cache_parts
          ex_results_def)
  have meta: "cache_metadata ex_cache_env 100 60 ''search:v1:0f2cf30b28afb13e''
      [(''query'', JStr ''rock''), (''results'', JList [JDict [(''title'', JStr ''A1'')]]),
       (''total_count'', JInt 2), (''truncated'', JBool True)] = ex_cached"
    by (simp add: cache_metadata_def dict_set_def ex_cache_parts ex_cached_def)
  show ?thesis
    by (simp add: CacheService_set_def Let_def ex_cache_key lim meta ex_cache_parts ex_encode_rock
          redis_setex_def redis_hincrby_def redis_zincrby_def counter_def)
       (simp add: ex_redis_def)
qed

lemma ex_get:
  "map_sum id fst (CacheService_get ex_cache_env 130
      (with_redis ex_cache
        (ex_redis\<lparr> strings := [(''search:v1:0f2cf30b28afb13e'', ''doc'', 160)],
                   cache_stats := [(''sets'', 1)], popular := [(ustr_of ''rock'', 1)] \<rparr>))
      (ustr_of ''rock'') None None) = Inr (Some (JDict ex_cached))"
  by (simp add: CacheService_get_def Let_def with_redis_def ex_cache_key redis_get_def
        redis_hincrby_def ex_cache_parts)

theorem cache_round_trip_with_metadata_witness:
  "redis_client ex_cache = Some ex_redis \<and> up ex_redis \<and>
   map_of ex_results ''results'' =
     Some (JList [JDict [(''title'', JStr ''A1'')], JDict [(''title'', JStr ''G1'')]]) \<and>
   max_results_per_query ex_cache = 1 \<and>
   generate_cache_key ex_cache_env (ustr_of ''rock'') None None = Inr ''search:v1:0f2cf30b28afb13e'' \<and>
   encode (ustr_of ''rock'') = Inr (ustr_of ''rock'') \<and>
   json_dumps ex_cache_env (JDict ex_cached) \<noteq> [] \<and>
   json_loads ex_cache_env (json_dumps ex_cache_env (JDict ex_cached)) = Inr (JDict ex_cached) \<and>
   map_sum id fst
     (CacheService_set ex_cache_env 100 ex_cache (ustr_of ''rock'') ex_results None None (Some 60)) =
     Inr True \<and>
   (\<exists>cs''. CacheService_get ex_cache_env 130
      (snd (projr (CacheService_set ex_cache_env 100 ex_cache (ustr_of ''rock'') ex_results
                     None None (Some 60))))
      (ustr_of ''rock'') None None = Inr (Some (JDict ex_cached), cs'')) \<and>
   map_of ex_cached ''results'' = Some (JList [JDict [(''title'', JStr ''A1'')]]) \<and>
   map_of ex_cached ''truncated'' = Some (JBool True) \<and>
   map_of ex_cached ''cache_ttl'' = Some (JInt 60)"
proof -
  let ?xs = "[JDict [(''title'', JStr ''A1'')], JDict [(''title'', JStr ''G1'')]]"
  let ?set = "CacheService_set ex_cache_env 100 ex_cache (ustr_of ''rock'') ex_results None None (Some 60)"
  have h1: "redis_client ex_cache = Some ex_redis" and h2: "up ex_redis"
    by (simp_all add: ex_cache_parts)
  note h3 = ex_results_entry
  have h4: "0 \<le> max_results_per_query ex_cache" by (simp add: ex_cache_parts)
  have h5: "(60 :: int) = (case Some 60 of Some t \<Rightarrow> if t \<noteq> 0 then t else default_ttl ex_cache
                            | None \<Rightarrow> default_ttl ex_cache)" by simp
  have h6: "(0 :: int) < 60" by simp
  note h7 = ex_cache_key and h8 = ex_encode_rock
  have h9: "(if max_results_per_query ex_cache < int (length ?xs)
             then dict_set (dict_set ex_results ''results''
                    (JList (take (nat (max_results_per_query ex_cache)) ?xs))) ''truncated'' (JBool True)
             else ex_results) =
            (if max_results_per_query ex_cache < int (length ?xs)
             then dict_set (dict_set ex_results ''results''
                    (JList (take (nat (max_results_per_query ex_cache)) ?xs))) ''truncated'' (JBool True)
             else ex_results)" by (rule refl)
  note h10 = ex_cached_doc [symmetric]
  have h11: "json_dumps ex_cache_env (JDict ex_cached) \<noteq> []" by (simp add: ex_cache_parts)
  have h12: "json_loads ex_cache_env (json_dumps ex_cache_env (JDict ex_cached)) = Inr (JDict ex_cached)"
    by (simp add: ex_cache_parts)
  have h13: "?set = Inr (fst (projr ?set), snd (projr ?set))" by (simp add: ex_set)
  have h14: "(100 :: int) \<le> 130" and h15: "(130 :: int) < 100 + 60" by simp_all
  from cache_round_trip_with_metadata [OF h1 h2 h3 h4 h5 h6 h7 h8 h9 h10 h11 h12 h13 h14 h15]
  show ?thesis
    using h1 h2 h3 h7 h8 h11 h12 by (simp add: ex_cache_parts ex_set)
qed

text \<open>
  C6 as stated fails at the example cache: what \<open>get\<close> returns thirty seconds after a
  successful \<open>set\<close> is not the response that was given to \<open>set\<close>, but that response
  cut to one result, marked truncated and extended by three entries.
\<close>

theorem cache_round_trip_counterexample:
  "map_sum id fst
     (CacheService_set ex_cache_env 100 ex_cache (ustr_of ''rock'') ex_results None None (Some 60)) =
     Inr True \<and>
   map_sum id fst (CacheService_get ex_cache_env 130
      (snd (projr (CacheService_set ex_cache_env 100 ex_cache (ustr_of ''rock'') ex_results
                     None None (Some 60))))
      (ustr_of ''rock'') None None) = Inr (Some (JDict ex_cached)) \<and>
   JDict ex_cached \<noteq> JDict ex_results"
  by (simp add: ex_set ex_get) (simp add: ex_cached_def ex_results_def)

end
